theory Spec2Isabelle
  imports Complex_Main
begin

section \<open>Weight binarization layers of \<open>quantization/binarize.py\<close>\<close>

text \<open>
  The embedding follows \<open>binarize.py\<close>: the two autograd functions
  \<open>BinaryLinearFunction\<close> and \<open>IRLinearFunction\<close>, the two layer classes built on them,
  and the model surgery \<open>binarizer\<close>.

  The tensors have the shapes of the layers: the weight is 2-D (out_features by
  in_features), the bias 1-D, the input and \<open>grad_output\<close> are 2-D batches, one row per
  sample.

  Tensor entries are real numbers: the arithmetic of the formulas is modelled, the rounding
  of floating point is not. Where floating point would produce a NaN or an infinity (the
  standard deviation of fewer than two entries, a division by a zero standard deviation)
  the real-valued model has no such value; the theorems about values name the condition
  under which the result is a number.
\<close>

subsection \<open>Errors\<close>

text \<open>The exceptions the Python code can raise; \<open>Exception\<close> is the bare \<open>raise Exception\<close>
  of the layers, \<open>RuntimeError\<close> is what torch raises on a shape mismatch,
  \<open>ZeroDivisionError\<close> is Python's division by zero.\<close>

datatype error =
  Exception | TypeError | RuntimeError | UnboundLocalError | ValueError | ZeroDivisionError

subsection \<open>Tensors\<close>

text \<open>A 2-D tensor: its shape and its entries in row-major order. A 1-D tensor is a list.
  A tensor whose rank is only known at run time (the result of \<open>squeeze\<close>) is a \<open>tensor\<close>.\<close>

record 'a matrix =
  nrows :: nat
  ncols :: nat
  elems :: "'a list"

datatype tensor = Scalar real | Vector "real list" | Matrix "real matrix"

definition wf_matrix :: "'a matrix \<Rightarrow> bool" where
  "wf_matrix m \<longleftrightarrow> length (elems m) = nrows m * ncols m"

definition entry :: "'a matrix \<Rightarrow> nat \<Rightarrow> nat \<Rightarrow> 'a" where
  "entry m i j = elems m ! (i * ncols m + j)"

definition tabulate2 :: "nat \<Rightarrow> nat \<Rightarrow> (nat \<Rightarrow> nat \<Rightarrow> 'a) \<Rightarrow> 'a matrix" where
  "tabulate2 r c f =
     \<lparr>nrows = r, ncols = c, elems = map (\<lambda>p. f (p div c) (p mod c)) [0..<r * c]\<rparr>"

definition rank :: "tensor \<Rightarrow> nat" where
  "rank x = (case x of Scalar _ \<Rightarrow> 0 | Vector _ \<Rightarrow> 1 | Matrix _ \<Rightarrow> 2)"

subsection \<open>The torch operations the code calls\<close>

text \<open>\<open>torch.sign\<close> on one entry: 0 maps to 0.\<close>

definition sign :: "real \<Rightarrow> real" where
  "sign x = (if 0 < x then 1 else if x < 0 then - 1 else 0)"

text \<open>An operation applied to every entry: the shape stays, the entries are mapped.\<close>

definition map_elems :: "('a \<Rightarrow> 'a) \<Rightarrow> 'a matrix \<Rightarrow> 'a matrix" where
  "map_elems f m = m\<lparr>elems := map f (elems m)\<rparr>"

definition torch_sign :: "real matrix \<Rightarrow> real matrix" where
  "torch_sign m = map_elems sign m"

text \<open>\<open>weight > c\<close>, \<open>weight < c\<close> and \<open>a | b\<close> on tensors of one shape.\<close>

definition torch_gt :: "real matrix \<Rightarrow> real \<Rightarrow> bool matrix" where
  "torch_gt m c = \<lparr>nrows = nrows m, ncols = ncols m, elems = map (\<lambda>x. c < x) (elems m)\<rparr>"

definition torch_lt :: "real matrix \<Rightarrow> real \<Rightarrow> bool matrix" where
  "torch_lt m c = \<lparr>nrows = nrows m, ncols = ncols m, elems = map (\<lambda>x. x < c) (elems m)\<rparr>"

definition torch_or :: "bool matrix \<Rightarrow> bool matrix \<Rightarrow> bool matrix" where
  "torch_or a b = a\<lparr>elems := map2 (\<or>) (elems a) (elems b)\<rparr>"

text \<open>\<open>m.t()\<close> and \<open>m.transpose(-1, -2)\<close> of a 2-D tensor. Both are views in torch; the code
  never writes through them, so the model builds the transposed value.\<close>

definition torch_t :: "'a matrix \<Rightarrow> 'a matrix" where
  "torch_t m = tabulate2 (ncols m) (nrows m) (\<lambda>i j. entry m j i)"

text \<open>\<open>a.matmul(b)\<close> of two 2-D tensors; torch raises a RuntimeError when the inner
  dimensions differ.\<close>

definition matmul :: "real matrix \<Rightarrow> real matrix \<Rightarrow> error + real matrix" where
  "matmul a b =
     (if ncols a = nrows b
      then Inr (tabulate2 (nrows a) (ncols b)
                  (\<lambda>i j. sum_list (map (\<lambda>k. entry a i k * entry b k j) [0..<ncols a])))
      else Inl RuntimeError)"

text \<open>\<open>output += bias\<close>: a 1-D bias is broadcast over the rows of the 2-D output. Its length
  is the number of columns, or 1; anything else is a RuntimeError.\<close>

definition add_bias :: "real matrix \<Rightarrow> real list \<Rightarrow> error + real matrix" where
  "add_bias out b =
     (if length b = ncols out
      then Inr (tabulate2 (nrows out) (ncols out) (\<lambda>i j. entry out i j + b ! j))
      else if length b = 1
      then Inr (tabulate2 (nrows out) (ncols out) (\<lambda>i j. entry out i j + b ! 0))
      else Inl RuntimeError)"

text \<open>\<open>g.masked_fill_(mask, v)\<close>: the mask is broadcast to the shape of \<open>g\<close> (each of its
  dimensions is that of \<open>g\<close>, or 1).\<close>

definition masked_fill :: "real matrix \<Rightarrow> bool matrix \<Rightarrow> real \<Rightarrow> error + real matrix" where
  "masked_fill g m v =
     (if (nrows m = nrows g \<or> nrows m = 1) \<and> (ncols m = ncols g \<or> ncols m = 1)
      then Inr (tabulate2 (nrows g) (ncols g)
                  (\<lambda>i j. if entry m (if nrows m = 1 then 0 else i)
                                        (if ncols m = 1 then 0 else j)
                         then v else entry g i j))
      else Inl RuntimeError)"


text \<open>\<open>g.sum(0)\<close> of a 2-D tensor: the column sums, a 1-D tensor.\<close>

definition sum0 :: "real matrix \<Rightarrow> real list" where
  "sum0 g = map (\<lambda>j. sum_list (map (\<lambda>i. entry g i j) [0..<nrows g])) [0..<ncols g]"

text \<open>\<open>v.squeeze(0)\<close> of a 1-D tensor: dimension 0 is removed when its size is 1.\<close>

definition squeeze0 :: "real list \<Rightarrow> tensor" where
  "squeeze0 v = (if length v = 1 then Scalar (v ! 0) else Vector v)"

text \<open>\<open>torch.mean\<close> and \<open>torch.std\<close> over all entries; \<open>std\<close> is the unbiased estimator
  (divisor \<open>n - 1\<close>).\<close>

definition torch_mean :: "real matrix \<Rightarrow> real" where
  "torch_mean m = sum_list (elems m) / real (length (elems m))"

definition torch_std :: "real matrix \<Rightarrow> real" where
  "torch_std m =
     sqrt (sum_list (map (\<lambda>x. (x - torch_mean m)\<^sup>2) (elems m)) / (real (length (elems m)) - 1))"

subsection \<open>Layers and modules\<close>

text \<open>A layer object holds its sizes and references to its parameter tensors; \<open>self.bias\<close>
  is \<open>None\<close> when the layer was built with \<open>bias=False\<close>. \<open>IRLinear\<close> has the temperature
  \<open>self.t\<close> besides, \<open>None\<close> until the caller sets it.\<close>

type_synonym addr = nat

record linear_layer =
  in_features :: nat
  out_features :: nat
  self_weight :: addr
  self_bias :: "addr option"

record ir_layer = linear_layer +
  self_t :: "real option"

text \<open>A module object with its exact type: \<open>nn.Linear\<close>, one of the two binarized layers, or
  any other class (its name and its named children), which includes the subclasses of
  \<open>nn.Linear\<close> and the modules that wrap one.\<close>

datatype module =
    Linear linear_layer
  | BinarizedLinear linear_layer
  | IRLinear ir_layer
  | Other string "(string \<times> addr) list"

subsection \<open>The store\<close>

text \<open>Tensors and modules are objects: a layer holds references to its parameters, \<open>+=\<close>
  writes into the object on its left, and the surgery is observed through object identity.
  The store keeps the objects by kind; an address is an index, and every operation that
  returns a new object allocates one.\<close>

record store =
  mats :: "real matrix list"
  vecs :: "real list list"
  masks :: "bool matrix list"
  mods :: "module list"

definition alloc_mat :: "real matrix \<Rightarrow> store \<Rightarrow> addr \<times> store" where
  "alloc_mat m s = (length (mats s), s\<lparr>mats := mats s @ [m]\<rparr>)"

definition alloc_vec :: "real list \<Rightarrow> store \<Rightarrow> addr \<times> store" where
  "alloc_vec v s = (length (vecs s), s\<lparr>vecs := vecs s @ [v]\<rparr>)"

definition alloc_mask :: "bool matrix \<Rightarrow> store \<Rightarrow> addr \<times> store" where
  "alloc_mask m s = (length (masks s), s\<lparr>masks := masks s @ [m]\<rparr>)"

definition alloc_mod :: "module \<Rightarrow> store \<Rightarrow> addr \<times> store" where
  "alloc_mod m s = (length (mods s), s\<lparr>mods := mods s @ [m]\<rparr>)"

subsection \<open>BinaryLinearFunction\<close>

text \<open>The autograd context: \<open>needs_input_grad\<close> is set by autograd before \<open>forward\<close> runs,
  \<open>saved_variables\<close> is what \<open>save_for_backward\<close> stored (nothing before the forward pass).\<close>

record 's ctx =
  needs_input_grad :: "nat \<Rightarrow> bool"
  saved_variables :: "'s option"

text \<open>Saved by the sign binarizer: input, binarized weight, weight mask, bias.\<close>

type_synonym sign_saved = "addr \<times> addr \<times> addr \<times> addr option"

definition BinaryLinearFunction_forward ::
  "sign_saved ctx \<Rightarrow> addr \<Rightarrow> addr \<Rightarrow> addr option \<Rightarrow> store \<Rightarrow>
     error + (addr \<times> sign_saved ctx \<times> store)" where
  "BinaryLinearFunction_forward ctx input weight bias s =
     (let (weight_mask, s1) =
            alloc_mask (torch_or (torch_gt (mats s ! weight) 1) (torch_lt (mats s ! weight) (- 1))) s;
          (weight_q, s2) = alloc_mat (torch_sign (mats s1 ! weight)) s1;
          ctx' = ctx\<lparr>saved_variables := Some (input, weight_q, weight_mask, bias)\<rparr>
      in case matmul (mats s2 ! input) (torch_t (mats s2 ! weight_q)) of
           Inl e \<Rightarrow> Inl e
         | Inr out \<Rightarrow>
             (let (output, s3) = alloc_mat out s2
              in case bias of
                   None \<Rightarrow> Inr (output, ctx', s3)
                 | Some b \<Rightarrow>
                     (case add_bias (mats s3 ! output) (vecs s3 ! b) of
                        Inl e \<Rightarrow> Inl e
                      | Inr out' \<Rightarrow> Inr (output, ctx', s3\<lparr>mats := (mats s3)[output := out']\<rparr>))))"

text \<open>The gradients are new tensors, returned as values; a slot that is not needed is
  \<open>None\<close>. \<open>grad_output\<close> is the tensor autograd passes in. Unpacking \<open>saved_variables\<close>
  of a context that saved nothing is a ValueError.\<close>

definition BinaryLinearFunction_backward ::
  "sign_saved ctx \<Rightarrow> real matrix \<Rightarrow> store \<Rightarrow>
     error + (real matrix option \<times> real matrix option \<times> tensor option)" where
  "BinaryLinearFunction_backward ctx grad_output s =
     (case saved_variables ctx of
        None \<Rightarrow> Inl ValueError
      | Some (input, weight_q, weight_mask, bias) \<Rightarrow>
          (case (if needs_input_grad ctx 0
                 then map_sum id Some (matmul grad_output (mats s ! weight_q))
                 else Inr None) of
             Inl e \<Rightarrow> Inl e
           | Inr grad_input \<Rightarrow>
               (case (if needs_input_grad ctx 1
                      then (case matmul (torch_t grad_output) (mats s ! input) of
                              Inl e \<Rightarrow> Inl e
                            | Inr grad_weight \<Rightarrow>
                                map_sum id Some (masked_fill grad_weight (masks s ! weight_mask) 0))
                      else Inr None) of
                  Inl e \<Rightarrow> Inl e
                | Inr grad_weight \<Rightarrow>
                    Inr (grad_input, grad_weight,
                         if bias \<noteq> None \<and> needs_input_grad ctx 2
                         then Some (squeeze0 (sum0 grad_output)) else None))))"

subsection \<open>BinarizedLinear\<close>

text \<open>What both constructors do with the parameters: \<open>torch.Tensor(out_features,
  in_features)\<close> for the weight, \<open>torch.Tensor(out_features)\<close> for the bias when \<open>bias\<close> is true,
  then \<open>reset_parameters\<close>, which fills the weight by \<open>normal_\<close> with the standard deviation
  \<open>math.sqrt(1.0 / self.in_features)\<close> and zeroes the bias. At \<open>in_features = 0\<close> the division
  raises a ZeroDivisionError and the constructor returns no layer. \<open>noise\<close> is the sequence of
  samples that \<open>normal_\<close> draws (already scaled to the standard deviation).\<close>

definition new_parameters ::
  "nat \<Rightarrow> nat \<Rightarrow> bool \<Rightarrow> (nat \<Rightarrow> real) \<Rightarrow> store \<Rightarrow> error + linear_layer \<times> store" where
  "new_parameters in_f out_f bias_flag noise s =
     (let (w, s1) = alloc_mat \<lparr>nrows = out_f, ncols = in_f,
                              elems = map noise [0..<out_f * in_f]\<rparr> s;
          (b, s2) = (if bias_flag
                     then (let (a, s') = alloc_vec (replicate out_f 0) s1 in (Some a, s'))
                     else (None, s1))
      in if in_f = 0 then Inl ZeroDivisionError
         else Inr (\<lparr>in_features = in_f, out_features = out_f, self_weight = w, self_bias = b\<rparr>,
                   s2))"

definition BinarizedLinear_init ::
  "nat \<Rightarrow> nat \<Rightarrow> bool \<Rightarrow> (nat \<Rightarrow> real) \<Rightarrow> store \<Rightarrow> error + linear_layer \<times> store" where
  "BinarizedLinear_init in_f out_f bias_flag noise s = new_parameters in_f out_f bias_flag noise s"

text \<open>\<open>BinaryLinearFunction.apply\<close> makes the context, with the \<open>needs_input_grad\<close> that
  autograd derives from the arguments, and calls \<open>forward\<close>.\<close>

definition BinarizedLinear_forward ::
  "linear_layer \<Rightarrow> (nat \<Rightarrow> bool) \<Rightarrow> addr \<Rightarrow> store \<Rightarrow> error + (addr \<times> sign_saved ctx \<times> store)" where
  "BinarizedLinear_forward self needs input s =
     (if self_bias self \<noteq> None
      then BinaryLinearFunction_forward \<lparr>needs_input_grad = needs, saved_variables = None\<rparr>
             input (self_weight self) (self_bias self) s
      else Inl Exception)"

subsection \<open>IRLinearFunction\<close>

text \<open>Saved by the scaled-tanh binarizer: input, \<open>weight_b\<close>, \<open>weight_norm\<close>, bias, and the
  scalars \<open>weight_std\<close>, \<open>t\<close>, \<open>k\<close>. The temperature is a scalar or \<open>None\<close>; \<open>1/None\<close> is a
  TypeError. At \<open>t = 0\<close> floating point gives \<open>k = inf\<close>, which the model does not have.\<close>

type_synonym ir_saved = "addr \<times> addr \<times> addr \<times> addr option \<times> real \<times> real \<times> real"

definition IRLinearFunction_forward ::
  "ir_saved ctx \<Rightarrow> addr \<Rightarrow> addr \<Rightarrow> addr option \<Rightarrow> real option \<Rightarrow> store \<Rightarrow>
     error + (addr \<times> ir_saved ctx \<times> store)" where
  "IRLinearFunction_forward ctx input weight bias t s =
     (let weight_mean = torch_mean (mats s ! weight);
          weight_std = torch_std (mats s ! weight);
          (weight_norm, s1) =
            alloc_mat (map_elems (\<lambda>x. (x - weight_mean) / weight_std) (mats s ! weight)) s
      in case t of
           None \<Rightarrow> Inl TypeError
         | Some tv \<Rightarrow>
             (let k = max (1 / tv) 1;
                  (weight_b, s2) =
                    alloc_mat (map_elems (\<lambda>x. k * tanh (tv * x)) (mats s1 ! weight_norm)) s1;
                  ctx' = ctx\<lparr>saved_variables :=
                              Some (input, weight_b, weight_norm, bias, weight_std, tv, k)\<rparr>
              in case matmul (mats s2 ! input) (torch_t (mats s2 ! weight_b)) of
                   Inl e \<Rightarrow> Inl e
                 | Inr out \<Rightarrow>
                     (let (output, s3) = alloc_mat out s2
                      in case bias of
                           None \<Rightarrow> Inr (output, ctx', s3)
                         | Some b \<Rightarrow>
                             (case add_bias (mats s3 ! output) (vecs s3 ! b) of
                                Inl e \<Rightarrow> Inl e
                              | Inr out' \<Rightarrow>
                                  Inr (output, ctx', s3\<lparr>mats := (mats s3)[output := out']\<rparr>)))))"


subsection \<open>IRLinear\<close>

text \<open>The constructor of \<open>IRLinear\<close> sets \<open>self.t = None\<close> besides.\<close>

definition IRLinear_init ::
  "nat \<Rightarrow> nat \<Rightarrow> bool \<Rightarrow> (nat \<Rightarrow> real) \<Rightarrow> store \<Rightarrow> error + ir_layer \<times> store" where
  "IRLinear_init in_f out_f bias_flag noise s =
     (case new_parameters in_f out_f bias_flag noise s of
        Inl e \<Rightarrow> Inl e
      | Inr (l, s') \<Rightarrow> Inr (linear_layer.extend l (ir_layer.fields None), s'))"

definition IRLinear_forward ::
  "ir_layer \<Rightarrow> (nat \<Rightarrow> bool) \<Rightarrow> addr \<Rightarrow> store \<Rightarrow> error + (addr \<times> ir_saved ctx \<times> store)" where
  "IRLinear_forward self needs input s =
     (if self_bias self \<noteq> None
      then IRLinearFunction_forward \<lparr>needs_input_grad = needs, saved_variables = None\<rparr>
             input (self_weight self) (self_bias self) (self_t self) s
      else Inl Exception)"

subsection \<open>Model surgery\<close>

text \<open>Modelled from the spec: the class of the model that \<open>binarizer\<close> receives is not in
  \<open>binarize.py\<close>. It is the fixed two-level hierarchy the code walks: \<open>model.transformer.h\<close>
  is the ordered sequence of blocks, a block has the sub-modules \<open>mlp\<close> and \<open>attn\<close>, and each
  of them holds named children, from a name to a module object, in the order of insertion.
  The code writes a child by item assignment, \<open>mlp[sub_name] = b\<close>, so a group is a
  dictionary of modules.\<close>

type_synonym group = "(string \<times> addr) list"

record block =
  mlp :: group
  attn :: group

record model =
  transformer_h :: "block list"

datatype attr = MLP | ATTN

definition getattr :: "block \<Rightarrow> attr \<Rightarrow> group" where
  "getattr blk a = (case a of MLP \<Rightarrow> mlp blk | ATTN \<Rightarrow> attn blk)"

text \<open>\<open>named_children()\<close> yields the children in the order of the dictionary, each module
  object once: torch keeps a memo of the objects already yielded.\<close>

fun named_children_from :: "addr list \<Rightarrow> group \<Rightarrow> group" where
  "named_children_from memo [] = []"
| "named_children_from memo ((name, m) # rest) =
     (if m \<in> set memo then named_children_from memo rest
      else (name, m) # named_children_from (m # memo) rest)"

definition named_children :: "group \<Rightarrow> group" where
  "named_children g = named_children_from [] g"

text \<open>\<open>g[sub_name] = b\<close> on the dictionary: the value of an existing key is replaced where it
  stands, a new key goes to the end.\<close>

fun setitem :: "group \<Rightarrow> string \<Rightarrow> addr \<Rightarrow> group" where
  "setitem [] sub_name b = [(sub_name, b)]"
| "setitem ((n, m) # g) sub_name b =
     (if n = sub_name then (sub_name, b) # g else (n, m) # setitem g sub_name b)"

definition setattr_item :: "block \<Rightarrow> attr \<Rightarrow> string \<Rightarrow> addr \<Rightarrow> block" where
  "setattr_item blk a sub_name b =
     (case a of
        MLP \<Rightarrow> blk\<lparr>mlp := setitem (mlp blk) sub_name b\<rparr>
      | ATTN \<Rightarrow> blk\<lparr>attn := setitem (attn blk) sub_name b\<rparr>)"

text \<open>The \<open>if\<close>/\<open>elif\<close> that binds \<open>b\<close>: a new \<open>BinarizedLinear\<close> or \<open>IRLinear\<close> with the sizes
  of the replaced layer and the default \<open>bias=True\<close>; the constructor can raise. With any
  other \<open>binarize_layer\<close> no branch runs and \<open>b\<close> is not bound (\<open>None\<close> here).\<close>

definition new_layer ::
  "string \<Rightarrow> linear_layer \<Rightarrow> (nat \<Rightarrow> real) \<Rightarrow> store \<Rightarrow> error + (addr \<times> store) option" where
  "new_layer binarize_layer sub_layer noise s =
     (if binarize_layer = ''basic''
      then (case BinarizedLinear_init (in_features sub_layer) (out_features sub_layer)
                   True noise s of
              Inl e \<Rightarrow> Inl e
            | Inr (l, s1) \<Rightarrow> Inr (Some (alloc_mod (BinarizedLinear l) s1)))
      else if binarize_layer = ''ir''
      then (case IRLinear_init (in_features sub_layer) (out_features sub_layer)
                   True noise s of
              Inl e \<Rightarrow> Inl e
            | Inr (l, s1) \<Rightarrow> Inr (Some (alloc_mod (IRLinear l) s1)))
      else Inr None)"

text \<open>The body of the two inner loops, which differ in the attribute (\<open>mlp\<close> or \<open>attn\<close>) only.
  \<open>binarize_layer\<close> is the same in every iteration, so \<open>b\<close> is bound in each iteration that
  reaches the assignment or in none; reading the unbound \<open>b\<close> is an UnboundLocalError.
  \<open>noise a\<close> is the sequence of samples drawn for the weight allocated at address \<open>a\<close>.\<close>

definition replace_sub_layer ::
  "string \<Rightarrow> bool \<Rightarrow> bool \<Rightarrow> bool \<Rightarrow> (addr \<Rightarrow> nat \<Rightarrow> real) \<Rightarrow> nat \<Rightarrow> attr \<Rightarrow>
     string \<times> addr \<Rightarrow> model \<times> store \<Rightarrow> error + model \<times> store" where
  "replace_sub_layer binarize_layer qk_only qv_only kv_only noise i a child ms =
     (case child of (sub_name, sub_layer) \<Rightarrow>
      case ms of (model, s) \<Rightarrow>
        (case mods s ! sub_layer of
           Linear l \<Rightarrow>
             if kv_only \<and> sub_name = ''c_attn_q'' then Inr (model, s)
             else if qv_only \<and> sub_name = ''c_attn_k'' then Inr (model, s)
             else if qk_only \<and> sub_name = ''c_attn_v'' then Inr (model, s)
             else (case new_layer binarize_layer l (noise (length (mats s))) s of
                     Inl e \<Rightarrow> Inl e
                   | Inr None \<Rightarrow> Inl UnboundLocalError
                   | Inr (Some (b, s')) \<Rightarrow>
                       Inr (model\<lparr>transformer_h :=
                              (transformer_h model)
                                [i := setattr_item (transformer_h model ! i) a sub_name b]\<rparr>, s'))
         | _ \<Rightarrow> Inr (model, s)))"

text \<open>A \<open>for\<close> loop whose body can raise.\<close>

fun for_each :: "('a \<Rightarrow> 'st \<Rightarrow> error + 'st) \<Rightarrow> 'a list \<Rightarrow> 'st \<Rightarrow> error + 'st" where
  "for_each body [] st = Inr st"
| "for_each body (x # xs) st =
     (case body x st of Inl e \<Rightarrow> Inl e | Inr st' \<Rightarrow> for_each body xs st')"

text \<open>One iteration of the outer loop: the children of \<open>block.mlp\<close>, then those of
  \<open>block.attn\<close>.\<close>

definition binarizer_block ::
  "string \<Rightarrow> bool \<Rightarrow> bool \<Rightarrow> bool \<Rightarrow> (addr \<Rightarrow> nat \<Rightarrow> real) \<Rightarrow> nat \<Rightarrow>
     model \<times> store \<Rightarrow> error + model \<times> store" where
  "binarizer_block binarize_layer qk_only qv_only kv_only noise i ms =
     (case for_each (replace_sub_layer binarize_layer qk_only qv_only kv_only noise i MLP)
             (named_children (getattr (transformer_h (fst ms) ! i) MLP)) ms of
        Inl e \<Rightarrow> Inl e
      | Inr ms1 \<Rightarrow>
          for_each (replace_sub_layer binarize_layer qk_only qv_only kv_only noise i ATTN)
            (named_children (getattr (transformer_h (fst ms1) ! i) ATTN)) ms1)"

text \<open>\<open>binarizer\<close> returns nothing; its effect is the model and the store it leaves.\<close>

definition binarizer ::
  "model \<Rightarrow> string \<Rightarrow> bool \<Rightarrow> bool \<Rightarrow> bool \<Rightarrow> (addr \<Rightarrow> nat \<Rightarrow> real) \<Rightarrow> store \<Rightarrow>
     error + model \<times> store" where
  "binarizer model binarize_layer qk_only qv_only kv_only noise s =
     for_each (binarizer_block binarize_layer qk_only qv_only kv_only noise)
       [0..<length (transformer_h model)] (model, s)"

subsection \<open>What the specification says of the surgery\<close>

text \<open>A model is well formed in a store when the names of a group are distinct (it is a
  dictionary), every child is an object of the store, and no \<open>nn.Linear\<close> child has
  \<open>in_features = 0\<close>.\<close>

definition wf_child :: "store \<Rightarrow> string \<times> addr \<Rightarrow> bool" where
  "wf_child s c \<longleftrightarrow>
     snd c < length (mods s) \<and>
     (case mods s ! snd c of Linear l \<Rightarrow> 0 < in_features l | _ \<Rightarrow> True)"

definition wf_group :: "store \<Rightarrow> group \<Rightarrow> bool" where
  "wf_group s g \<longleftrightarrow> distinct (map fst g) \<and> list_all (wf_child s) g"

definition wf_model :: "store \<Rightarrow> model \<Rightarrow> bool" where
  "wf_model s model \<longleftrightarrow>
     list_all (\<lambda>blk. wf_group s (mlp blk) \<and> wf_group s (attn blk)) (transformer_h model)"

text \<open>Every object of \<open>s\<close> is in \<open>s'\<close>, at its address and unchanged.\<close>

definition store_extends :: "store \<Rightarrow> store \<Rightarrow> bool" where
  "store_extends s s' \<longleftrightarrow>
     take (length (mats s)) (mats s') = mats s \<and> take (length (vecs s)) (vecs s') = vecs s \<and>
     masks s' = masks s \<and> take (length (mods s)) (mods s') = mods s"

text \<open>The name-based skip filter.\<close>

definition skipped :: "bool \<Rightarrow> bool \<Rightarrow> bool \<Rightarrow> string \<Rightarrow> bool" where
  "skipped qk_only qv_only kv_only sub_name \<longleftrightarrow>
     kv_only \<and> sub_name = ''c_attn_q'' \<or> qv_only \<and> sub_name = ''c_attn_k'' \<or>
     qk_only \<and> sub_name = ''c_attn_v''"

text \<open>The parameters of the layer \<open>l'\<close> are new tensors of \<open>s'\<close> (they are not in \<open>s\<close>): a weight
  of the sizes of \<open>l\<close>, holding the samples drawn for it, and a bias, zero, of length
  \<open>out_features\<close>.\<close>

definition fresh_parameters ::
  "store \<Rightarrow> store \<Rightarrow> (addr \<Rightarrow> nat \<Rightarrow> real) \<Rightarrow> linear_layer \<Rightarrow> 'a linear_layer_scheme \<Rightarrow> bool" where
  "fresh_parameters s s' noise l l' \<longleftrightarrow>
     in_features l' = in_features l \<and> out_features l' = out_features l \<and>
     length (mats s) \<le> self_weight l' \<and> self_weight l' < length (mats s') \<and>
     mats s' ! self_weight l' =
       \<lparr>nrows = out_features l, ncols = in_features l,
        elems = map (noise (self_weight l')) [0..<out_features l * in_features l]\<rparr> \<and>
     (case self_bias l' of
        None \<Rightarrow> False
      | Some b \<Rightarrow> length (vecs s) \<le> b \<and> b < length (vecs s') \<and>
                  vecs s' ! b = replicate (out_features l) 0)"

text \<open>\<open>m\<close> is a layer of the requested kind with the sizes of \<open>l\<close>, new parameters and a
  bias.\<close>

definition replacement_of ::
  "store \<Rightarrow> store \<Rightarrow> (addr \<Rightarrow> nat \<Rightarrow> real) \<Rightarrow> string \<Rightarrow> linear_layer \<Rightarrow> module \<Rightarrow> bool" where
  "replacement_of s s' noise binarize_layer l m \<longleftrightarrow>
     (case m of
        BinarizedLinear l' \<Rightarrow> binarize_layer = ''basic'' \<and> fresh_parameters s s' noise l l'
      | IRLinear l' \<Rightarrow>
          binarize_layer = ''ir'' \<and> fresh_parameters s s' noise l l' \<and> self_t l' = None
      | _ \<Rightarrow> False)"

text \<open>How an entry of a group after the surgery relates to the entry at the same position
  before it: the name is the same; a child that was an \<open>nn.Linear\<close>, is not skipped and is
  met for the first time in its group (\<open>first\<close>) is now a module object that did not exist
  before, a replacement of the old one; any other child is the same object.\<close>

definition surgery_on ::
  "store \<Rightarrow> store \<Rightarrow> (addr \<Rightarrow> nat \<Rightarrow> real) \<Rightarrow> string \<Rightarrow> bool \<Rightarrow> bool \<Rightarrow> bool \<Rightarrow> bool \<Rightarrow>
     string \<times> addr \<Rightarrow> string \<times> addr \<Rightarrow> bool" where
  "surgery_on s s' noise binarize_layer qk_only qv_only kv_only first old new \<longleftrightarrow>
     fst new = fst old \<and>
     (case mods s ! snd old of
        Linear l \<Rightarrow>
          if first \<and> \<not> skipped qk_only qv_only kv_only (fst old)
          then length (mods s) \<le> snd new \<and> snd new < length (mods s') \<and>
               replacement_of s s' noise binarize_layer l (mods s' ! snd new)
          else snd new = snd old
      | _ \<Rightarrow> snd new = snd old)"

text \<open>The surgery on a whole group: the same names at the same positions, and at every
  position the relation above, where a child is met for the first time when its object is
  not in \<open>seen\<close> and does not stand at an earlier position of the group.\<close>

definition group_surgery ::
  "store \<Rightarrow> store \<Rightarrow> (addr \<Rightarrow> nat \<Rightarrow> real) \<Rightarrow> string \<Rightarrow> bool \<Rightarrow> bool \<Rightarrow> bool \<Rightarrow> addr list \<Rightarrow>
     group \<Rightarrow> group \<Rightarrow> bool" where
  "group_surgery s s' noise binarize_layer qk_only qv_only kv_only seen g g' \<longleftrightarrow>
     length g' = length g \<and>
     list_all
       (\<lambda>p. surgery_on s s' noise binarize_layer qk_only qv_only kv_only
              (snd (g ! p) \<notin> set seen \<union> snd ` set (take p g)) (g ! p) (g' ! p))
       [0..<length g]"

section \<open>Properties\<close>

subsection \<open>Tensor operations\<close>

lemma index_bound: "i < r \<Longrightarrow> j < c \<Longrightarrow> i * c + j < r * (c::nat)"
proof -
  assume a: "i < r" "j < c"
  then have "i * c + j < (i + 1) * c" by simp
  also have "\<dots> \<le> r * c" using a by (intro mult_le_mono1) simp
  finally show ?thesis .
qed

lemma nrows_tabulate2 [simp]: "nrows (tabulate2 r c f) = r"
  and ncols_tabulate2 [simp]: "ncols (tabulate2 r c f) = c"
  by (simp_all add: tabulate2_def)

lemma wf_tabulate2 [simp]: "wf_matrix (tabulate2 r c f)"
  by (simp add: wf_matrix_def tabulate2_def)

lemma entry_tabulate2 [simp]: "i < r \<Longrightarrow> j < c \<Longrightarrow> entry (tabulate2 r c f) i j = f i j"
  using index_bound [of i r j c] by (simp add: entry_def tabulate2_def)

lemma shape_map_elems [simp]:
  "nrows (map_elems f m) = nrows m" "ncols (map_elems f m) = ncols m"
  "wf_matrix (map_elems f m) = wf_matrix m"
  by (simp_all add: map_elems_def wf_matrix_def)

lemma entry_map_elems:
  "wf_matrix m \<Longrightarrow> i < nrows m \<Longrightarrow> j < ncols m \<Longrightarrow> entry (map_elems f m) i j = f (entry m i j)"
  using index_bound [of i "nrows m" j "ncols m"] by (simp add: map_elems_def entry_def wf_matrix_def)

lemma sum_list_range: "sum_list (map f [0..<n]) = (\<Sum>k<n. f k)"
  by (simp add: interv_sum_list_conv_sum_set_nat atLeast0LessThan)

lemma sign_sgn: "sign x = sgn x"
  by (simp add: sign_def sgn_real_def)

lemma shape_torch_sign [simp]:
  "nrows (torch_sign m) = nrows m" "ncols (torch_sign m) = ncols m"
  by (simp_all add: torch_sign_def)

lemma entry_torch_sign:
  "wf_matrix m \<Longrightarrow> i < nrows m \<Longrightarrow> j < ncols m \<Longrightarrow> entry (torch_sign m) i j = sgn (entry m i j)"
  by (simp add: torch_sign_def entry_map_elems sign_sgn)

lemma shape_torch_t [simp]: "nrows (torch_t m) = ncols m" "ncols (torch_t m) = nrows m"
  by (simp_all add: torch_t_def)

lemma entry_torch_t [simp]: "i < ncols m \<Longrightarrow> j < nrows m \<Longrightarrow> entry (torch_t m) i j = entry m j i"
  by (simp add: torch_t_def)

lemma shape_weight_mask [simp]:
  "nrows (torch_or (torch_gt m a) (torch_lt m b)) = nrows m"
  "ncols (torch_or (torch_gt m a) (torch_lt m b)) = ncols m"
  by (simp_all add: torch_or_def torch_gt_def)

lemma entry_weight_mask:
  "wf_matrix m \<Longrightarrow> i < nrows m \<Longrightarrow> j < ncols m \<Longrightarrow>
     entry (torch_or (torch_gt m a) (torch_lt m b)) i j \<longleftrightarrow> a < entry m i j \<or> entry m i j < b"
  using index_bound [of i "nrows m" j "ncols m"]
  by (simp add: torch_or_def torch_gt_def torch_lt_def entry_def wf_matrix_def)

lemma matmul_Inr:
  "matmul a b = Inr p \<longleftrightarrow>
     ncols a = nrows b \<and>
     p = tabulate2 (nrows a) (ncols b) (\<lambda>i j. \<Sum>k<ncols a. entry a i k * entry b k j)"
  by (auto simp add: matmul_def sum_list_range)

lemma add_bias_Inr:
  "add_bias out b = Inr p \<Longrightarrow> nrows p = nrows out \<and> ncols p = ncols out"
  by (auto simp add: add_bias_def split: if_splits)

lemma add_bias_entry:
  "add_bias out b = Inr p \<Longrightarrow> length b = ncols out \<Longrightarrow> i < nrows out \<Longrightarrow> j < ncols out \<Longrightarrow>
     entry p i j = entry out i j + b ! j"
  by (auto simp add: add_bias_def split: if_splits)

lemma add_bias_ok: "length b = ncols out \<Longrightarrow> \<exists>p. add_bias out b = Inr p"
  by (simp add: add_bias_def)

text \<open>What a successful forward pass of the sign binarizer returns.\<close>

lemma sign_forward_result:
  assumes "BinaryLinearFunction_forward ctx input weight bias s = Inr (output, ctx', s')"
    and "input < length (mats s)" and "weight < length (mats s)"
  shows "\<exists>q. output = Suc (length (mats s)) \<and>
           ctx' = ctx\<lparr>saved_variables := Some (input, length (mats s), length (masks s), bias)\<rparr> \<and>
           s' = s\<lparr>masks := masks s @ [torch_or (torch_gt (mats s ! weight) 1)
                                               (torch_lt (mats s ! weight) (- 1))],
                  mats := mats s @ [torch_sign (mats s ! weight), q]\<rparr> \<and>
           ncols (mats s ! input) = ncols (mats s ! weight) \<and>
           nrows q = nrows (mats s ! input) \<and> ncols q = nrows (mats s ! weight) \<and>
           (case bias of
              None \<Rightarrow> q = tabulate2 (nrows (mats s ! input)) (nrows (mats s ! weight))
                (\<lambda>i j. \<Sum>k<ncols (mats s ! input).
                  entry (mats s ! input) i k * entry (torch_t (torch_sign (mats s ! weight))) k j)
            | Some b \<Rightarrow> add_bias (tabulate2 (nrows (mats s ! input)) (nrows (mats s ! weight))
                (\<lambda>i j. \<Sum>k<ncols (mats s ! input).
                  entry (mats s ! input) i k * entry (torch_t (torch_sign (mats s ! weight))) k j))
                (vecs s ! b) = Inr q)"
proof (cases bias)
  case None
  with assms show ?thesis
    by (auto simp add: BinaryLinearFunction_forward_def alloc_mask_def alloc_mat_def nth_append
        Let_def matmul_Inr split: sum.splits)
next
  case (Some b)
  let ?p = "tabulate2 (nrows (mats s ! input)) (nrows (mats s ! weight))
              (\<lambda>i j. \<Sum>k<ncols (mats s ! input).
                  entry (mats s ! input) i k * entry (torch_t (torch_sign (mats s ! weight))) k j)"
  from assms Some obtain q where q: "add_bias ?p (vecs s ! b) = Inr q"
    and r: "ncols (mats s ! input) = ncols (mats s ! weight)"
      "output = Suc (length (mats s))"
      "ctx' = ctx\<lparr>saved_variables := Some (input, length (mats s), length (masks s), bias)\<rparr>"
      "s' = s\<lparr>masks := masks s @ [torch_or (torch_gt (mats s ! weight) 1)
                                               (torch_lt (mats s ! weight) (- 1))],
                  mats := mats s @ [torch_sign (mats s ! weight), q]\<rparr>"
    by (auto simp add: BinaryLinearFunction_forward_def alloc_mask_def alloc_mat_def nth_append
        Let_def matmul_Inr list_update_append split: sum.splits)
  from add_bias_Inr [OF q] r q Some show ?thesis by (intro exI [of _ q]) simp
qed

lemma sign_forward_ok:
  assumes "input < length (mats s)" and "weight < length (mats s)"
    and "ncols (mats s ! input) = ncols (mats s ! weight)"
    and "length (vecs s ! b) = nrows (mats s ! weight)"
  shows "\<exists>r. BinaryLinearFunction_forward ctx input weight (Some b) s = Inr r"
  using assms
  by (simp add: BinaryLinearFunction_forward_def alloc_mask_def alloc_mat_def nth_append
        Let_def matmul_def add_bias_def)

text \<open>
  C1. The forward pass of the sign binarizer, on a batch \<open>x\<close> (one row per sample), a
  weight \<open>w\<close> and a bias \<open>b\<close> of matching shapes, returns the tensor whose entry \<open>(i, j)\<close>
  is \<open>(\<Sum>k. x i k * sgn (w j k)) + b j\<close>, that is \<open>input \<cdot> sign(weight)\<^sup>t + bias\<close> with the
  bias added to every row. The sign is taken entry by entry and the sign of 0 is 0.
\<close>

theorem sign_forward_output:
  assumes "input < length (mats s)" and "weight < length (mats s)"
    and "wf_matrix (mats s ! weight)"
    and "ncols (mats s ! input) = ncols (mats s ! weight)"
    and "length (vecs s ! b) = nrows (mats s ! weight)"
    and "b < length (vecs s)"
  shows "\<exists>output ctx' s'.
           BinaryLinearFunction_forward ctx input weight (Some b) s = Inr (output, ctx', s') \<and>
           nrows (mats s' ! output) = nrows (mats s ! input) \<and>
           ncols (mats s' ! output) = nrows (mats s ! weight) \<and>
           (\<forall>i<nrows (mats s ! input). \<forall>j<nrows (mats s ! weight).
              entry (mats s' ! output) i j =
                (\<Sum>k<ncols (mats s ! weight).
                    entry (mats s ! input) i k * sgn (entry (mats s ! weight) j k))
                + vecs s ! b ! j)"
proof -
  from sign_forward_ok [OF assms(1,2,4,5)] obtain out ctx' s'
    where run: "BinaryLinearFunction_forward ctx input weight (Some b) s = Inr (out, ctx', s')"
    by (metis prod_cases3)
  from sign_forward_result [OF run assms(1,2)] obtain q where
    q: "out = Suc (length (mats s))" "mats s' = mats s @ [torch_sign (mats s ! weight), q]"
      "nrows q = nrows (mats s ! input)" "ncols q = nrows (mats s ! weight)"
      "add_bias (tabulate2 (nrows (mats s ! input)) (nrows (mats s ! weight))
                (\<lambda>i j. \<Sum>k<ncols (mats s ! input).
                  entry (mats s ! input) i k * entry (torch_t (torch_sign (mats s ! weight))) k j))
                (vecs s ! b) = Inr q"
    by auto
  have out: "mats s' ! out = q" by (simp add: q(1,2) nth_append)
  have "entry q i j = (\<Sum>k<ncols (mats s ! weight).
                    entry (mats s ! input) i k * sgn (entry (mats s ! weight) j k))
                + vecs s ! b ! j"
    if "i < nrows (mats s ! input)" "j < nrows (mats s ! weight)" for i j
    using add_bias_entry [OF q(5), of i j] that assms(3,4,5)
    by (simp add: entry_torch_sign)
  with run out q(3,4) show ?thesis by blast
qed


theorem sign_forward_output_witness:
  "\<exists>output ctx' s'.
     BinaryLinearFunction_forward \<lparr>needs_input_grad = (\<lambda>_. True), saved_variables = None\<rparr>
       0 1 (Some 0)
       \<lparr>mats = [\<lparr>nrows = 1, ncols = 2, elems = [1, 2]\<rparr>, \<lparr>nrows = 1, ncols = 2, elems = [3, - 4]\<rparr>],
        vecs = [[5]], masks = [], mods = []\<rparr> = Inr (output, ctx', s') \<and>
     nrows (mats s' ! output) = 1 \<and> ncols (mats s' ! output) = 1 \<and>
     entry (mats s' ! output) 0 0 = 4"
proof -
  define s where "s = \<lparr>mats = [\<lparr>nrows = 1, ncols = 2, elems = [1, 2]\<rparr>, \<lparr>nrows = 1, ncols = 2, elems = [3, - 4]\<rparr>],
        vecs = [[5::real]], masks = [], mods = []\<rparr>"
  define ctx where "ctx = (\<lparr>needs_input_grad = (\<lambda>_. True), saved_variables = None\<rparr> :: sign_saved ctx)"
  have h: "0 < length (mats s)" "1 < length (mats s)" "wf_matrix (mats s ! 1)"
    "ncols (mats s ! 0) = ncols (mats s ! 1)" "length (vecs s ! 0) = nrows (mats s ! 1)"
    "0 < length (vecs s)"
    by (simp_all add: wf_matrix_def s_def)
  from sign_forward_output [OF h, of ctx] obtain out ctx' s' where
    r: "BinaryLinearFunction_forward ctx 0 1 (Some 0) s = Inr (out, ctx', s')"
      "nrows (mats s' ! out) = nrows (mats s ! 0)"
      "ncols (mats s' ! out) = nrows (mats s ! 1)"
      "\<forall>i<nrows (mats s ! 0). \<forall>j<nrows (mats s ! 1).
              entry (mats s' ! out) i j =
                (\<Sum>k<ncols (mats s ! 1).
                    entry (mats s ! 0) i k * sgn (entry (mats s ! 1) j k))
                + vecs s ! 0 ! j"
    by blast
  have v: "(\<Sum>k<ncols (mats s ! 1). entry (mats s ! 0) 0 k * sgn (entry (mats s ! 1) 0 k))
          + vecs s ! 0 ! 0 = 4"
    by (simp add: s_def entry_def lessThan_Suc eval_nat_numeral)
  have "0 < nrows (mats s ! 0)" "0 < nrows (mats s ! 1)" by (simp_all add: s_def)
  with r(4) v have e: "entry (mats s' ! out) 0 0 = 4" by simp
  have d: "nrows (mats s' ! out) = 1" "ncols (mats s' ! out) = 1"
    using r(2,3) by (simp_all add: s_def)
  from r(1) e d have "BinaryLinearFunction_forward ctx 0 1 (Some 0) s = Inr (out, ctx', s') \<and>
     nrows (mats s' ! out) = 1 \<and> ncols (mats s' ! out) = 1 \<and> entry (mats s' ! out) 0 0 = 4"
    by simp
  then show ?thesis unfolding s_def ctx_def by (intro exI)
qed


subsection \<open>The backward pass of the sign binarizer\<close>

lemma masked_fill_Inr:
  "nrows m = nrows g \<Longrightarrow> ncols m = ncols g \<Longrightarrow>
     masked_fill g m v = Inr (tabulate2 (nrows g) (ncols g)
        (\<lambda>i j. if entry m (if nrows g = 1 then 0 else i) (if ncols g = 1 then 0 else j)
               then v else entry g i j))"
  by (simp add: masked_fill_def)

lemma broadcast_index [simp]: "i < n \<Longrightarrow> (if n = Suc 0 then 0 else i) = i"
  by auto

text \<open>
  C2. After a forward pass of the sign binarizer, when the weight needs a gradient, the
  backward pass returns \<open>grad_weight\<close> with the shape of the weight, whose entry \<open>(j, k)\<close> is
  0 where the weight entry is above 1 or below -1 (the saved mask), and is the entry
  \<open>\<Sum>i. grad_output i j * input i k\<close> of \<open>grad_output\<^sup>t \<cdot> input\<close> everywhere else, in particular
  wherever the weight entry lies in [-1, 1].
\<close>

theorem sign_backward_grad_weight:
  assumes "BinaryLinearFunction_forward ctx input weight bias s = Inr (output, ctx', s')"
    and "input < length (mats s)" and "weight < length (mats s)"
    and "wf_matrix (mats s ! weight)"
    and "needs_input_grad ctx 1"
    and "nrows g = nrows (mats s ! input)" and "ncols g = nrows (mats s ! weight)"
  shows "\<exists>grad_input grad_weight grad_bias.
           BinaryLinearFunction_backward ctx' g s' = Inr (grad_input, Some grad_weight, grad_bias) \<and>
           nrows grad_weight = nrows (mats s ! weight) \<and>
           ncols grad_weight = ncols (mats s ! weight) \<and>
           (\<forall>j<nrows (mats s ! weight). \<forall>k<ncols (mats s ! weight).
              entry grad_weight j k =
                (if 1 < entry (mats s ! weight) j k \<or> entry (mats s ! weight) j k < - 1 then 0
                 else \<Sum>i<nrows (mats s ! input). entry g i j * entry (mats s ! input) i k))"
proof -
  let ?x = "mats s ! input" and ?w = "mats s ! weight"
  let ?m = "torch_or (torch_gt ?w 1) (torch_lt ?w (- 1))"
  from sign_forward_result [OF assms(1,2,3)] obtain q where
    r: "ctx' = ctx\<lparr>saved_variables := Some (input, length (mats s), length (masks s), bias)\<rparr>"
       "mats s' = mats s @ [torch_sign ?w, q]" "masks s' = masks s @ [?m]"
       "ncols ?x = ncols ?w"
    by auto
  let ?gw = "tabulate2 (nrows ?w) (ncols ?w) (\<lambda>i j. \<Sum>k<nrows g. entry (torch_t g) i k * entry ?x k j)"
  let ?res = "tabulate2 (nrows ?w) (ncols ?w)
        (\<lambda>i j. if entry ?m (if nrows ?w = 1 then 0 else i) (if ncols ?w = 1 then 0 else j)
               then 0 else entry ?gw i j)"
  have mm: "matmul (torch_t g) ?x = Inr ?gw"
    using assms(6,7) r(4) by (simp add: matmul_Inr)
  have mf: "masked_fill ?gw ?m 0 = Inr ?res"
    using assms(7) r(4) by (simp add: masked_fill_Inr)
  let ?gi = "if needs_input_grad ctx 0
             then Some (tabulate2 (nrows g) (ncols ?w)
                          (\<lambda>i j. \<Sum>k<ncols g. entry g i k * entry (torch_sign ?w) k j))
             else None"
  have mi: "matmul g (torch_sign ?w) =
              Inr (tabulate2 (nrows g) (ncols ?w)
                     (\<lambda>i j. \<Sum>k<ncols g. entry g i k * entry (torch_sign ?w) k j))"
    using assms(7) by (simp add: matmul_Inr)
  have run: "BinaryLinearFunction_backward ctx' g s' =
      Inr (?gi, Some ?res, if bias \<noteq> None \<and> needs_input_grad ctx 2
                         then Some (squeeze0 (sum0 g)) else None)"
    using assms(2,3,5) mi mm mf
    by (simp add: BinaryLinearFunction_backward_def r(1,2,3) nth_append)
  have "entry ?res j k = (if 1 < entry ?w j k \<or> entry ?w j k < - 1 then 0
                 else \<Sum>i<nrows ?x. entry g i j * entry ?x i k)"
    if "j < nrows ?w" "k < ncols ?w" for j k
    using that assms(4,6,7) r(4)
    by (simp add: entry_weight_mask)
  with run show ?thesis by (intro exI [of _ ?gi] exI [of _ ?res] exI) simp
qed

theorem sign_backward_grad_weight_witness:
  "\<exists>output ctx' s' grad_input grad_weight grad_bias.
     BinaryLinearFunction_forward \<lparr>needs_input_grad = (\<lambda>_. True), saved_variables = None\<rparr>
       0 1 (Some 0)
       \<lparr>mats = [\<lparr>nrows = 1, ncols = 2, elems = [1, 2]\<rparr>, \<lparr>nrows = 1, ncols = 2, elems = [1 / 2, - 4]\<rparr>],
        vecs = [[5]], masks = [], mods = []\<rparr> = Inr (output, ctx', s') \<and>
     BinaryLinearFunction_backward ctx' \<lparr>nrows = 1, ncols = 1, elems = [2]\<rparr> s' =
       Inr (grad_input, Some grad_weight, grad_bias) \<and>
     entry grad_weight 0 0 = 2 \<and> entry grad_weight 0 1 = 0"
proof -
  define s where "s = \<lparr>mats = [\<lparr>nrows = 1, ncols = 2, elems = [1, 2]\<rparr>,
                               \<lparr>nrows = 1, ncols = 2, elems = [1 / 2, - 4]\<rparr>],
        vecs = [[5::real]], masks = [], mods = []\<rparr>"
  define ctx where "ctx = (\<lparr>needs_input_grad = (\<lambda>_. True), saved_variables = None\<rparr> :: sign_saved ctx)"
  define g where "g = \<lparr>nrows = 1, ncols = 1, elems = [2::real]\<rparr>"
  have h: "0 < length (mats s)" "1 < length (mats s)" "wf_matrix (mats s ! 1)"
    "needs_input_grad ctx 1" "nrows g = nrows (mats s ! 0)" "ncols g = nrows (mats s ! 1)"
    by (simp_all add: wf_matrix_def s_def ctx_def g_def)
  have "\<exists>r. BinaryLinearFunction_forward ctx 0 1 (Some 0) s = Inr r"
    by (rule sign_forward_ok) (simp_all add: s_def)
  then obtain out ctx' s' where
    run: "BinaryLinearFunction_forward ctx 0 1 (Some 0) s = Inr (out, ctx', s')"
    by (metis prod_cases3)
  from sign_backward_grad_weight [OF run h] obtain gi gw gb where
    b: "BinaryLinearFunction_backward ctx' g s' = Inr (gi, Some gw, gb)"
      "\<forall>j<nrows (mats s ! 1). \<forall>k<ncols (mats s ! 1).
              entry gw j k =
                (if 1 < entry (mats s ! 1) j k \<or> entry (mats s ! 1) j k < - 1 then 0
                 else \<Sum>i<nrows (mats s ! 0). entry g i j * entry (mats s ! 0) i k)"
    by blast
  have "0 < nrows (mats s ! 1)" "0 < ncols (mats s ! 1)" "1 < ncols (mats s ! 1)"
    by (simp_all add: s_def)
  with b(2) have "entry gw 0 0 = (if 1 < entry (mats s ! 1) 0 0 \<or> entry (mats s ! 1) 0 0 < - 1 then 0
                 else \<Sum>i<nrows (mats s ! 0). entry g i 0 * entry (mats s ! 0) i 0)"
    "entry gw 0 1 = (if 1 < entry (mats s ! 1) 0 1 \<or> entry (mats s ! 1) 0 1 < - 1 then 0
                 else \<Sum>i<nrows (mats s ! 0). entry g i 0 * entry (mats s ! 0) i 1)"
    by blast+
  then have e: "entry gw 0 0 = 2" "entry gw 0 1 = 0"
    by (simp_all add: s_def g_def entry_def)
  from run b(1) e have "BinaryLinearFunction_forward ctx 0 1 (Some 0) s = Inr (out, ctx', s') \<and>
     BinaryLinearFunction_backward ctx' g s' = Inr (gi, Some gw, gb) \<and>
     entry gw 0 0 = 2 \<and> entry gw 0 1 = 0"
    by simp
  then show ?thesis unfolding s_def ctx_def g_def by (intro exI)
qed

text \<open>
  C5. \<open>grad_bias\<close> of the sign binarizer is \<open>grad_output.sum(0).squeeze(0)\<close>. On a layer with
  one output feature the sum over the batch has shape (1) and the squeeze removes that
  dimension: for a batch of two samples with \<open>grad_output = [[3], [4]]\<close> the backward pass
  returns the rank-0 tensor 7 as \<open>grad_bias\<close>, while the bias \<open>[0]\<close> has rank 1.
\<close>

theorem sign_backward_grad_bias_squeezed:
  "\<exists>output ctx' s' grad_input grad_weight.
     BinaryLinearFunction_forward \<lparr>needs_input_grad = (\<lambda>_. True), saved_variables = None\<rparr>
       0 1 (Some 0)
       \<lparr>mats = [\<lparr>nrows = 2, ncols = 1, elems = [1, 2]\<rparr>, \<lparr>nrows = 1, ncols = 1, elems = [1]\<rparr>],
        vecs = [[0]], masks = [], mods = []\<rparr> = Inr (output, ctx', s') \<and>
     BinaryLinearFunction_backward ctx' \<lparr>nrows = 2, ncols = 1, elems = [3, 4]\<rparr> s' =
       Inr (grad_input, grad_weight, Some (Scalar 7)) \<and>
     rank (Scalar 7) = 0 \<and> rank (Vector [0]) = 1"
proof -
  define s where "s = \<lparr>mats = [\<lparr>nrows = 2, ncols = 1, elems = [1, 2]\<rparr>,
                               \<lparr>nrows = 1, ncols = 1, elems = [1]\<rparr>],
        vecs = [[0::real]], masks = [], mods = []\<rparr>"
  define ctx where "ctx = (\<lparr>needs_input_grad = (\<lambda>_. True), saved_variables = None\<rparr> :: sign_saved ctx)"
  define g where "g = \<lparr>nrows = 2, ncols = 1, elems = [3, 4::real]\<rparr>"
  have "\<exists>r. BinaryLinearFunction_forward ctx 0 1 (Some 0) s = Inr r"
    by (rule sign_forward_ok) (simp_all add: s_def)
  then obtain out ctx' s' where
    run: "BinaryLinearFunction_forward ctx 0 1 (Some 0) s = Inr (out, ctx', s')"
    by (metis prod_cases3)
  have h: "0 < length (mats s)" "1 < length (mats s)" by (simp_all add: s_def)
  from sign_forward_result [OF run h] obtain q where
    r: "ctx' = ctx\<lparr>saved_variables := Some (0, length (mats s), length (masks s), Some 0)\<rparr>"
       "mats s' = mats s @ [torch_sign (mats s ! 1), q]"
       "masks s' = masks s @ [torch_or (torch_gt (mats s ! 1) 1) (torch_lt (mats s ! 1) (- 1))]"
    by auto
  have "\<exists>gi gw. BinaryLinearFunction_backward ctx' g s' = Inr (gi, gw, Some (Scalar 7))"
    by (simp add: BinaryLinearFunction_backward_def r ctx_def s_def g_def matmul_def masked_fill_def
        squeeze0_def sum0_def entry_def eval_nat_numeral)
  then obtain gi gw where "BinaryLinearFunction_backward ctx' g s' = Inr (gi, gw, Some (Scalar 7))"
    by blast
  with run have "BinaryLinearFunction_forward ctx 0 1 (Some 0) s = Inr (out, ctx', s') \<and>
     BinaryLinearFunction_backward ctx' g s' = Inr (gi, gw, Some (Scalar 7)) \<and>
     rank (Scalar 7) = 0 \<and> rank (Vector [0]) = 1"
    by (simp add: rank_def)
  then show ?thesis unfolding s_def ctx_def g_def by (intro exI)
qed


subsection \<open>The scaled-tanh binarizer\<close>

lemma sum_flat_index:
  fixes g :: "nat \<Rightarrow> real"
  shows "(\<Sum>p<r * c. g p) = (\<Sum>i<r. \<Sum>j<c. g (i * c + j))"
proof -
  have "(\<Sum>p<r * c. g p) = (\<Sum>i<r. sum g {i * c..<i * c + c})"
    by (simp add: sum.nat_group)
  also have "\<dots> = (\<Sum>i<r. \<Sum>j<c. g (i * c + j))"
  proof (rule sum.cong)
    fix i
    have "sum g {0 + i * c..<c + i * c} = (\<Sum>j = 0..<c. g (j + i * c))"
      by (rule sum.shift_bounds_nat_ivl)
    then show "sum g {i * c..<i * c + c} = (\<Sum>j<c. g (i * c + j))"
      by (simp add: add.commute atLeast0LessThan)
  qed simp
  finally show ?thesis .
qed

lemma sum_list_elems:
  fixes f :: "real \<Rightarrow> real"
  assumes "wf_matrix m"
  shows "sum_list (map f (elems m)) = (\<Sum>i<nrows m. \<Sum>j<ncols m. f (entry m i j))"
proof -
  have "sum_list (map f (elems m)) = (\<Sum>p<length (elems m). f (elems m ! p))"
    by (simp add: sum_list_sum_nth atLeast0LessThan)
  also have "\<dots> = (\<Sum>p<nrows m * ncols m. f (elems m ! p))"
    using assms by (simp add: wf_matrix_def)
  also have "\<dots> = (\<Sum>i<nrows m. \<Sum>j<ncols m. f (elems m ! (i * ncols m + j)))"
    by (rule sum_flat_index)
  finally show ?thesis by (simp add: entry_def)
qed

lemma torch_mean_sum:
  "wf_matrix m \<Longrightarrow>
     torch_mean m = (\<Sum>i<nrows m. \<Sum>j<ncols m. entry m i j) / real (nrows m * ncols m)"
  using sum_list_elems [of m "\<lambda>x. x"] by (simp add: torch_mean_def wf_matrix_def)

lemma torch_std_sum:
  "wf_matrix m \<Longrightarrow>
     torch_std m = sqrt ((\<Sum>i<nrows m. \<Sum>j<ncols m. (entry m i j - torch_mean m)\<^sup>2)
                          / (real (nrows m * ncols m) - 1))"
  using sum_list_elems [of m "\<lambda>x. (x - torch_mean m)\<^sup>2"] by (simp add: torch_std_def wf_matrix_def)


text \<open>What a successful forward pass of the scaled-tanh binarizer returns.\<close>

lemma ir_forward_result:
  assumes "IRLinearFunction_forward ctx input weight bias (Some tv) s = Inr (output, ctx', s')"
    and "input < length (mats s)" and "weight < length (mats s)"
  shows "\<exists>q. output = Suc (Suc (length (mats s))) \<and>
           ctx' = ctx\<lparr>saved_variables :=
                    Some (input, Suc (length (mats s)), length (mats s), bias,
                          torch_std (mats s ! weight), tv, max (1 / tv) 1)\<rparr> \<and>
           s' = s\<lparr>mats := mats s @
                  [map_elems (\<lambda>x. (x - torch_mean (mats s ! weight)) / torch_std (mats s ! weight))
                     (mats s ! weight),
                   map_elems (\<lambda>x. max (1 / tv) 1 * tanh (tv * x))
                     (map_elems (\<lambda>x. (x - torch_mean (mats s ! weight)) / torch_std (mats s ! weight))
                        (mats s ! weight)),
                   q]\<rparr> \<and>
           ncols (mats s ! input) = ncols (mats s ! weight) \<and>
           nrows q = nrows (mats s ! input) \<and> ncols q = nrows (mats s ! weight) \<and>
           (case bias of
              None \<Rightarrow> q = tabulate2 (nrows (mats s ! input)) (nrows (mats s ! weight))
                (\<lambda>i j. \<Sum>k<ncols (mats s ! input). entry (mats s ! input) i k *
                   entry (torch_t (map_elems (\<lambda>x. max (1 / tv) 1 * tanh (tv * x))
                     (map_elems (\<lambda>x. (x - torch_mean (mats s ! weight)) / torch_std (mats s ! weight))
                        (mats s ! weight)))) k j)
            | Some b \<Rightarrow> add_bias (tabulate2 (nrows (mats s ! input)) (nrows (mats s ! weight))
                (\<lambda>i j. \<Sum>k<ncols (mats s ! input). entry (mats s ! input) i k *
                   entry (torch_t (map_elems (\<lambda>x. max (1 / tv) 1 * tanh (tv * x))
                     (map_elems (\<lambda>x. (x - torch_mean (mats s ! weight)) / torch_std (mats s ! weight))
                        (mats s ! weight)))) k j))
                (vecs s ! b) = Inr q)"
proof (cases bias)
  case None
  with assms show ?thesis
    by (auto simp add: IRLinearFunction_forward_def alloc_mat_def nth_append
        Let_def matmul_Inr split: sum.splits)
next
  case (Some b)
  let ?wb = "map_elems (\<lambda>x. max (1 / tv) 1 * tanh (tv * x))
                     (map_elems (\<lambda>x. (x - torch_mean (mats s ! weight)) / torch_std (mats s ! weight))
                        (mats s ! weight))"
  let ?p = "tabulate2 (nrows (mats s ! input)) (nrows (mats s ! weight))
              (\<lambda>i j. \<Sum>k<ncols (mats s ! input).
                  entry (mats s ! input) i k * entry (torch_t ?wb) k j)"
  from assms Some obtain q where q: "add_bias ?p (vecs s ! b) = Inr q"
    and r: "ncols (mats s ! input) = ncols (mats s ! weight)"
      "output = Suc (Suc (length (mats s)))"
      "ctx' = ctx\<lparr>saved_variables :=
                    Some (input, Suc (length (mats s)), length (mats s), bias,
                          torch_std (mats s ! weight), tv, max (1 / tv) 1)\<rparr>"
      "s' = s\<lparr>mats := mats s @
                  [map_elems (\<lambda>x. (x - torch_mean (mats s ! weight)) / torch_std (mats s ! weight))
                     (mats s ! weight), ?wb, q]\<rparr>"
    by (auto simp add: IRLinearFunction_forward_def alloc_mat_def nth_append
        Let_def matmul_Inr list_update_append split: sum.splits)
  from add_bias_Inr [OF q] r q Some show ?thesis by (intro exI [of _ q]) simp
qed

lemma ir_forward_ok:
  assumes "input < length (mats s)" and "weight < length (mats s)"
    and "ncols (mats s ! input) = ncols (mats s ! weight)"
    and "length (vecs s ! b) = nrows (mats s ! weight)"
  shows "\<exists>r. IRLinearFunction_forward ctx input weight (Some b) (Some tv) s = Inr r"
  using assms
  by (simp add: IRLinearFunction_forward_def alloc_mat_def nth_append
        Let_def matmul_def add_bias_def)

text \<open>
  C3. The forward pass of the scaled-tanh binarizer with a positive temperature \<open>t\<close>: with
  \<open>\<mu>\<close> the mean of all weight entries and \<open>\<sigma>\<close> their unbiased sample standard deviation
  (divisor \<open>n - 1\<close>), the saved \<open>weight_norm\<close> is \<open>(weight - \<mu>) / \<sigma>\<close>, the saved quantized weight
  is \<open>k * tanh (t * weight_norm)\<close> with \<open>k = max (1/t) 1\<close>, and the output is
  \<open>input \<cdot> weight_q\<^sup>t + bias\<close>. The weight has at least two entries and \<open>\<sigma> \<noteq> 0\<close>, so that
  the normalisation is a number.
\<close>

theorem ir_forward_output:
  fixes tv :: real
  assumes "input < length (mats s)" and "weight < length (mats s)" and "b < length (vecs s)"
    and "wf_matrix (mats s ! weight)"
    and "ncols (mats s ! input) = ncols (mats s ! weight)"
    and "length (vecs s ! b) = nrows (mats s ! weight)"
    and "0 < tv"
    and "\<mu> = (\<Sum>j<nrows (mats s ! weight). \<Sum>k<ncols (mats s ! weight). entry (mats s ! weight) j k)
                / real (nrows (mats s ! weight) * ncols (mats s ! weight))"
    and "\<sigma> = sqrt ((\<Sum>j<nrows (mats s ! weight). \<Sum>k<ncols (mats s ! weight).
                         (entry (mats s ! weight) j k - \<mu>)\<^sup>2)
                     / (real (nrows (mats s ! weight) * ncols (mats s ! weight)) - 1))"
    and "1 < nrows (mats s ! weight) * ncols (mats s ! weight)" and "\<sigma> \<noteq> 0"
  shows "\<exists>output ctx' s' weight_b weight_norm.
           IRLinearFunction_forward ctx input weight (Some b) (Some tv) s = Inr (output, ctx', s') \<and>
           saved_variables ctx' =
             Some (input, weight_b, weight_norm, Some b, \<sigma>, tv, max (1 / tv) 1) \<and>
           (\<forall>j<nrows (mats s ! weight). \<forall>k<ncols (mats s ! weight).
              entry (mats s' ! weight_norm) j k = (entry (mats s ! weight) j k - \<mu>) / \<sigma> \<and>
              entry (mats s' ! weight_b) j k =
                max (1 / tv) 1 * tanh (tv * ((entry (mats s ! weight) j k - \<mu>) / \<sigma>))) \<and>
           nrows (mats s' ! output) = nrows (mats s ! input) \<and>
           ncols (mats s' ! output) = nrows (mats s ! weight) \<and>
           (\<forall>i<nrows (mats s ! input). \<forall>j<nrows (mats s ! weight).
              entry (mats s' ! output) i j =
                (\<Sum>k<ncols (mats s ! weight).
                    entry (mats s ! input) i k * entry (mats s' ! weight_b) j k)
                + vecs s ! b ! j)"
proof -
  let ?x = "mats s ! input" and ?w = "mats s ! weight"
  have mu: "torch_mean ?w = \<mu>" using assms(4,8) by (simp add: torch_mean_sum)
  have sigma: "torch_std ?w = \<sigma>" using assms(4,9) mu by (simp add: torch_std_sum)
  let ?wn = "map_elems (\<lambda>x. (x - \<mu>) / \<sigma>) ?w"
  let ?wb = "map_elems (\<lambda>x. max (1 / tv) 1 * tanh (tv * x)) ?wn"
  from ir_forward_ok [OF assms(1,2,5,6)] obtain out ctx' s'
    where run: "IRLinearFunction_forward ctx input weight (Some b) (Some tv) s = Inr (out, ctx', s')"
    by (metis prod_cases3)
  from ir_forward_result [OF run assms(1,2)] obtain q where
    q: "out = Suc (Suc (length (mats s)))" "mats s' = mats s @ [?wn, ?wb, q]"
      "ctx' = ctx\<lparr>saved_variables :=
                    Some (input, Suc (length (mats s)), length (mats s), Some b, \<sigma>, tv, max (1 / tv) 1)\<rparr>"
      "nrows q = nrows ?x" "ncols q = nrows ?w"
      "add_bias (tabulate2 (nrows ?x) (nrows ?w)
                (\<lambda>i j. \<Sum>k<ncols ?x. entry ?x i k * entry (torch_t ?wb) k j))
                (vecs s ! b) = Inr q"
    unfolding mu sigma by auto
  have nth: "mats s' ! out = q" "mats s' ! Suc (length (mats s)) = ?wb"
    "mats s' ! length (mats s) = ?wn"
    by (simp_all add: q(1,2) nth_append)
  have wn: "entry ?wn j k = (entry ?w j k - \<mu>) / \<sigma>"
    and wb: "entry ?wb j k = max (1 / tv) 1 * tanh (tv * ((entry ?w j k - \<mu>) / \<sigma>))"
    if "j < nrows ?w" "k < ncols ?w" for j k
    using that assms(4) by (simp_all add: entry_map_elems)
  have "entry q i j = (\<Sum>k<ncols ?w. entry ?x i k * entry ?wb j k) + vecs s ! b ! j"
    if "i < nrows ?x" "j < nrows ?w" for i j
    using add_bias_entry [OF q(6), of i j] that assms(5,6) by simp
  with run nth q(3,4,5) wn wb show ?thesis
    by (intro exI [of _ out] exI [of _ ctx'] exI [of _ s']
          exI [of _ "Suc (length (mats s))"] exI [of _ "length (mats s)"]) simp
qed

theorem ir_forward_output_witness:
  "\<exists>output ctx' s' weight_b weight_norm.
     IRLinearFunction_forward \<lparr>needs_input_grad = (\<lambda>_. True), saved_variables = None\<rparr>
       0 1 (Some 0) (Some (1 / 2))
       \<lparr>mats = [\<lparr>nrows = 1, ncols = 2, elems = [1, 2]\<rparr>, \<lparr>nrows = 1, ncols = 2, elems = [1, - 1]\<rparr>],
        vecs = [[5]], masks = [], mods = []\<rparr> = Inr (output, ctx', s') \<and>
     saved_variables ctx' = Some (0, weight_b, weight_norm, Some 0, sqrt 2, 1 / 2, 2) \<and>
     entry (mats s' ! weight_norm) 0 0 = (1 - 0) / sqrt 2 \<and>
     entry (mats s' ! weight_b) 0 0 = 2 * tanh (1 / 2 * ((1 - 0) / sqrt 2))"
proof -
  define s where "s = \<lparr>mats = [\<lparr>nrows = 1, ncols = 2, elems = [1, 2]\<rparr>,
                               \<lparr>nrows = 1, ncols = 2, elems = [1, - 1]\<rparr>],
        vecs = [[5::real]], masks = [], mods = []\<rparr>"
  define ctx where "ctx = (\<lparr>needs_input_grad = (\<lambda>_. True), saved_variables = None\<rparr> :: ir_saved ctx)"
  define tv where "tv = (1 / 2 :: real)"
  have w: "entry (mats s ! 1) 0 0 = 1" "entry (mats s ! 1) 0 1 = - 1"
    "nrows (mats s ! 1) = 1" "ncols (mats s ! 1) = 2"
    by (simp_all add: s_def entry_def)
  have h: "0 < length (mats s)" "1 < length (mats s)" "0 < length (vecs s)"
    "wf_matrix (mats s ! 1)" "ncols (mats s ! 0) = ncols (mats s ! 1)"
    "length (vecs s ! 0) = nrows (mats s ! 1)" "0 < tv"
    "0 = (\<Sum>j<nrows (mats s ! 1). \<Sum>k<ncols (mats s ! 1). entry (mats s ! 1) j k)
                / real (nrows (mats s ! 1) * ncols (mats s ! 1))"
    "sqrt 2 = sqrt ((\<Sum>j<nrows (mats s ! 1). \<Sum>k<ncols (mats s ! 1).
                         (entry (mats s ! 1) j k - 0)\<^sup>2)
                     / (real (nrows (mats s ! 1) * ncols (mats s ! 1)) - 1))"
    "1 < nrows (mats s ! 1) * ncols (mats s ! 1)" "sqrt 2 \<noteq> (0::real)"
  proof -
    show "0 < length (mats s)" "1 < length (mats s)" "0 < length (vecs s)"
      "wf_matrix (mats s ! 1)" "ncols (mats s ! 0) = ncols (mats s ! 1)"
      "length (vecs s ! 0) = nrows (mats s ! 1)" "0 < tv"
      by (simp_all add: s_def wf_matrix_def tv_def)
    show "0 = (\<Sum>j<nrows (mats s ! 1). \<Sum>k<ncols (mats s ! 1). entry (mats s ! 1) j k)
                / real (nrows (mats s ! 1) * ncols (mats s ! 1))"
      "sqrt 2 = sqrt ((\<Sum>j<nrows (mats s ! 1). \<Sum>k<ncols (mats s ! 1).
                         (entry (mats s ! 1) j k - 0)\<^sup>2)
                     / (real (nrows (mats s ! 1) * ncols (mats s ! 1)) - 1))"
      "1 < nrows (mats s ! 1) * ncols (mats s ! 1)" "sqrt 2 \<noteq> (0::real)"
      by (simp_all add: s_def entry_def lessThan_Suc eval_nat_numeral)
  qed
  have k: "max (1 / tv) 1 = 2" by (simp add: tv_def)
  from ir_forward_output [OF h, of ctx] obtain out ctx' s' wb wn where
    r: "IRLinearFunction_forward ctx 0 1 (Some 0) (Some tv) s = Inr (out, ctx', s')"
       "saved_variables ctx' = Some (0, wb, wn, Some 0, sqrt 2, tv, max (1 / tv) 1)"
       "\<forall>j<nrows (mats s ! 1). \<forall>k<ncols (mats s ! 1).
              entry (mats s' ! wn) j k = (entry (mats s ! 1) j k - 0) / sqrt 2 \<and>
              entry (mats s' ! wb) j k =
                max (1 / tv) 1 * tanh (tv * ((entry (mats s ! 1) j k - 0) / sqrt 2))"
    by blast
  have "0 < nrows (mats s ! 1)" "0 < ncols (mats s ! 1)" by (simp_all add: s_def)
  with r(3) have "entry (mats s' ! wn) 0 0 = (entry (mats s ! 1) 0 0 - 0) / sqrt 2 \<and>
              entry (mats s' ! wb) 0 0 =
                max (1 / tv) 1 * tanh (tv * ((entry (mats s ! 1) 0 0 - 0) / sqrt 2))"
    by blast
  then have e: "entry (mats s' ! wn) 0 0 = (1 - 0) / sqrt 2"
    "entry (mats s' ! wb) 0 0 = 2 * tanh (tv * ((1 - 0) / sqrt 2))"
    unfolding w k by blast+
  from r(1,2) e have "IRLinearFunction_forward ctx 0 1 (Some 0) (Some tv) s = Inr (out, ctx', s') \<and>
     saved_variables ctx' = Some (0, wb, wn, Some 0, sqrt 2, tv, 2) \<and>
     entry (mats s' ! wn) 0 0 = (1 - 0) / sqrt 2 \<and>
     entry (mats s' ! wb) 0 0 = 2 * tanh (tv * ((1 - 0) / sqrt 2))"
    unfolding k by blast
  then show ?thesis unfolding s_def ctx_def tv_def by (intro exI)
qed

lemma ir_forward_None: "IRLinearFunction_forward ctx input weight bias None s = Inl TypeError"
  by (simp add: IRLinearFunction_forward_def Let_def alloc_mat_def)





text \<open>
  C6, as stated, fails: with the temperature \<open>t = -1\<close>, which is not positive, the forward
  pass of the scaled-tanh binarizer raises nothing and returns an output.
\<close>

theorem ir_forward_negative_temperature:
  "(- 1 :: real) \<le> 0 \<and>
   \<not> isl (IRLinearFunction_forward \<lparr>needs_input_grad = (\<lambda>_. True), saved_variables = None\<rparr>
       0 1 (Some 0) (Some (- 1))
       \<lparr>mats = [\<lparr>nrows = 1, ncols = 2, elems = [1, 2]\<rparr>, \<lparr>nrows = 1, ncols = 2, elems = [1, - 1]\<rparr>],
        vecs = [[5]], masks = [], mods = []\<rparr>)"
proof -
  have "\<exists>r. IRLinearFunction_forward \<lparr>needs_input_grad = (\<lambda>_. True), saved_variables = None\<rparr>
       0 1 (Some 0) (Some (- 1))
       \<lparr>mats = [\<lparr>nrows = 1, ncols = 2, elems = [1, 2]\<rparr>, \<lparr>nrows = 1, ncols = 2, elems = [1, - 1]\<rparr>],
        vecs = [[5]], masks = [], mods = []\<rparr> = Inr r"
    by (rule ir_forward_ok) simp_all
  then show ?thesis by auto
qed

text \<open>
  C6, amended. The code has no check of the temperature. On a layer with a bias, the
  forward pass raises a TypeError (at \<open>1/t\<close>) when \<open>t\<close> is absent, and for every scalar
  \<open>t \<noteq> 0\<close>, negative ones included, it returns an output and saves \<open>k = max (1/t) 1\<close>.
\<close>

theorem ir_forward_temperature:
  assumes "input < length (mats s)" and "self_weight self < length (mats s)"
    and "self_bias self = Some b" and "b < length (vecs s)"
    and "ncols (mats s ! input) = ncols (mats s ! self_weight self)"
    and "length (vecs s ! b) = nrows (mats s ! self_weight self)"
  shows "(self_t self = None \<longrightarrow> IRLinear_forward self needs input s = Inl TypeError) \<and>
         (\<forall>tv. self_t self = Some tv \<and> tv \<noteq> 0 \<longrightarrow>
            (\<exists>output ctx' s' weight_b weight_norm weight_std.
               IRLinear_forward self needs input s = Inr (output, ctx', s') \<and>
               saved_variables ctx' =
                 Some (input, weight_b, weight_norm, Some b, weight_std, tv, max (1 / tv) 1)))"
proof (intro conjI allI impI)
  assume "self_t self = None"
  with assms(3) show "IRLinear_forward self needs input s = Inl TypeError"
    by (simp add: IRLinear_forward_def ir_forward_None)
next
  fix tv assume tv: "self_t self = Some tv \<and> tv \<noteq> 0"
  let ?ctx = "\<lparr>needs_input_grad = needs, saved_variables = None\<rparr> :: ir_saved ctx"
  from ir_forward_ok [OF assms(1,2,5,6)] obtain out ctx' s' where
    run: "IRLinearFunction_forward ?ctx input (self_weight self) (Some b) (Some tv) s = Inr (out, ctx', s')"
    by (metis prod_cases3)
  from ir_forward_result [OF run assms(1,2)]
  have "saved_variables ctx' =
          Some (input, Suc (length (mats s)), length (mats s), Some b,
                torch_std (mats s ! self_weight self), tv, max (1 / tv) 1)"
    by auto
  moreover have "IRLinear_forward self needs input s = Inr (out, ctx', s')"
    using run assms(3) tv by (simp add: IRLinear_forward_def)
  ultimately show "\<exists>output ctx' s' weight_b weight_norm weight_std.
               IRLinear_forward self needs input s = Inr (output, ctx', s') \<and>
               saved_variables ctx' =
                 Some (input, weight_b, weight_norm, Some b, weight_std, tv, max (1 / tv) 1)"
    by blast
qed

theorem ir_forward_temperature_witness:
  "IRLinear_forward \<lparr>in_features = 2, out_features = 1, self_weight = 1, self_bias = Some 0,
                     self_t = None\<rparr> (\<lambda>_. True) 0
       \<lparr>mats = [\<lparr>nrows = 1, ncols = 2, elems = [1, 2]\<rparr>, \<lparr>nrows = 1, ncols = 2, elems = [1, - 1]\<rparr>],
        vecs = [[5]], masks = [], mods = []\<rparr> = Inl TypeError \<and>
   (\<exists>output ctx' s' weight_b weight_norm weight_std.
     IRLinear_forward \<lparr>in_features = 2, out_features = 1, self_weight = 1, self_bias = Some 0,
                       self_t = Some (- 1)\<rparr> (\<lambda>_. True) 0
       \<lparr>mats = [\<lparr>nrows = 1, ncols = 2, elems = [1, 2]\<rparr>, \<lparr>nrows = 1, ncols = 2, elems = [1, - 1]\<rparr>],
        vecs = [[5]], masks = [], mods = []\<rparr> = Inr (output, ctx', s') \<and>
     saved_variables ctx' = Some (0, weight_b, weight_norm, Some 0, weight_std, - 1, 1))"
proof -
  define s where "s = \<lparr>mats = [\<lparr>nrows = 1, ncols = 2, elems = [1, 2]\<rparr>,
                               \<lparr>nrows = 1, ncols = 2, elems = [1, - 1]\<rparr>],
        vecs = [[5::real]], masks = [], mods = []\<rparr>"
  define l0 where "l0 = \<lparr>in_features = 2, out_features = 1, self_weight = 1, self_bias = Some 0,
                     self_t = None\<rparr>"
  define l1 where "l1 = \<lparr>in_features = 2, out_features = 1, self_weight = 1, self_bias = Some 0,
                     self_t = Some (- 1 :: real)\<rparr>"
  define needs where "needs = (\<lambda>_::nat. True)"
  have h0: "0 < length (mats s)" "self_weight l0 < length (mats s)"
    "self_bias l0 = Some 0" "0 < length (vecs s)"
    "ncols (mats s ! 0) = ncols (mats s ! self_weight l0)"
    "length (vecs s ! 0) = nrows (mats s ! self_weight l0)"
    by (simp_all add: s_def l0_def)
  have h1: "0 < length (mats s)" "self_weight l1 < length (mats s)"
    "self_bias l1 = Some 0" "0 < length (vecs s)"
    "ncols (mats s ! 0) = ncols (mats s ! self_weight l1)"
    "length (vecs s ! 0) = nrows (mats s ! self_weight l1)"
    by (simp_all add: s_def l1_def)
  have t: "self_t l0 = None" "self_t l1 = Some (- 1) \<and> (- 1 :: real) \<noteq> 0"
    by (simp_all add: l0_def l1_def)
  have k: "max (1 / (- 1)) (1::real) = 1" by simp
  from ir_forward_temperature [OF h0, of needs] t(1)
  have a: "IRLinear_forward l0 needs 0 s = Inl TypeError" by blast
  from ir_forward_temperature [OF h1, of needs] t(2)
  have "\<exists>output ctx' s' weight_b weight_norm weight_std.
               IRLinear_forward l1 needs 0 s = Inr (output, ctx', s') \<and>
               saved_variables ctx' =
                 Some (0, weight_b, weight_norm, Some 0, weight_std, - 1, max (1 / (- 1)) 1)"
    by blast
  with a show ?thesis unfolding k unfolding s_def l0_def l1_def needs_def by blast
qed

subsection \<open>The layers\<close>

lemma new_parameters_zero: "new_parameters 0 out_f bias_flag noise s = Inl ZeroDivisionError"
  by (simp add: new_parameters_def Let_def split: prod.splits)

text \<open>
  C7, as stated, fails: with \<open>in_features = 0\<close> the constructor of either layer raises a
  ZeroDivisionError, so constructing an instance without a bias is not always permitted;
  and what the forward pass of a bias-less layer raises is the bare \<open>Exception\<close>, the source
  has no class of configuration errors.
\<close>

theorem biasless_construction_fails:
  "BinarizedLinear_init 0 1 False (\<lambda>_. 0)
     \<lparr>mats = [], vecs = [], masks = [], mods = []\<rparr> = Inl ZeroDivisionError \<and>
   IRLinear_init 0 1 False (\<lambda>_. 0)
     \<lparr>mats = [], vecs = [], masks = [], mods = []\<rparr> = Inl ZeroDivisionError \<and>
   BinarizedLinear_forward
     \<lparr>in_features = 1, out_features = 1, self_weight = 0, self_bias = None\<rparr> (\<lambda>_. True) 1
     \<lparr>mats = [\<lparr>nrows = 1, ncols = 1, elems = [1]\<rparr>, \<lparr>nrows = 1, ncols = 1, elems = [2]\<rparr>],
      vecs = [], masks = [], mods = []\<rparr> = Inl Exception"
  by (simp add: BinarizedLinear_init_def IRLinear_init_def new_parameters_zero
      BinarizedLinear_forward_def)

text \<open>
  C7, amended. For \<open>in_features\<close> at least 1, both constructors accept \<open>bias=False\<close> and return
  a layer of the given sizes whose bias is \<open>None\<close>; the forward pass of that layer raises the
  bare \<open>Exception\<close>, for every input, every store and every \<open>needs_input_grad\<close>, and so
  returns no output.
\<close>

theorem biasless_forward_raises:
  assumes "0 < in_f"
  shows "(\<exists>l s1. BinarizedLinear_init in_f out_f False noise s0 = Inr (l, s1) \<and>
            in_features l = in_f \<and> out_features l = out_f \<and> self_bias l = None \<and>
            BinarizedLinear_forward l needs input s = Inl Exception) \<and>
         (\<exists>l s1. IRLinear_init in_f out_f False noise s0 = Inr (l, s1) \<and>
            in_features l = in_f \<and> out_features l = out_f \<and> self_bias l = None \<and>
            IRLinear_forward l needs input s = Inl Exception)"
  using assms
  by (simp add: BinarizedLinear_init_def IRLinear_init_def new_parameters_def alloc_mat_def
      BinarizedLinear_forward_def IRLinear_forward_def linear_layer.defs ir_layer.defs)

theorem biasless_forward_raises_witness:
  "(\<exists>l s1. BinarizedLinear_init 2 3 False (\<lambda>_. 0)
              \<lparr>mats = [], vecs = [], masks = [], mods = []\<rparr> = Inr (l, s1) \<and>
            in_features l = 2 \<and> out_features l = 3 \<and> self_bias l = None \<and>
            BinarizedLinear_forward l (\<lambda>_. True) 0
              \<lparr>mats = [\<lparr>nrows = 1, ncols = 2, elems = [1, 2]\<rparr>], vecs = [], masks = [], mods = []\<rparr>
              = Inl Exception) \<and>
   (\<exists>l s1. IRLinear_init 2 3 False (\<lambda>_. 0)
              \<lparr>mats = [], vecs = [], masks = [], mods = []\<rparr> = Inr (l, s1) \<and>
            in_features l = 2 \<and> out_features l = 3 \<and> self_bias l = None \<and>
            IRLinear_forward l (\<lambda>_. True) 0
              \<lparr>mats = [\<lparr>nrows = 1, ncols = 2, elems = [1, 2]\<rparr>], vecs = [], masks = [], mods = []\<rparr>
              = Inl Exception)"
proof -
  have h: "0 < (2::nat)" by simp
  show ?thesis by (rule biasless_forward_raises [OF h])
qed

text \<open>
  C10. A forward pass of either layer that returns leaves every tensor of the store it
  started from as it was, the layer's weight and bias among them: the quantized weight
  (and \<open>weight_norm\<close>) it saves and the output it returns are new objects, and the only write,
  \<open>output += bias\<close>, goes to the new output. For the sign layer the saved object holds the
  signs of the unchanged weight.
\<close>

theorem forward_keeps_parameters:
  assumes "input < length (mats s)"
    and "self_weight l < length (mats s)" and "self_weight l' < length (mats s)"
  shows "(\<forall>output c s'. BinarizedLinear_forward l needs input s = Inr (output, c, s') \<longrightarrow>
            take (length (mats s)) (mats s') = mats s \<and> vecs s' = vecs s \<and>
            mats s' ! self_weight l = mats s ! self_weight l \<and>
            (\<forall>b. self_bias l = Some b \<longrightarrow> vecs s' ! b = vecs s ! b) \<and>
            (\<exists>i weight_q m b. saved_variables c = Some (i, weight_q, m, b) \<and>
               weight_q \<noteq> self_weight l \<and> output \<noteq> self_weight l \<and>
               (wf_matrix (mats s ! self_weight l) \<longrightarrow>
                  (\<forall>j<nrows (mats s ! self_weight l). \<forall>k<ncols (mats s ! self_weight l).
                      entry (mats s' ! weight_q) j k = sgn (entry (mats s ! self_weight l) j k))))) \<and>
         (\<forall>output c s'. IRLinear_forward l' needs input s = Inr (output, c, s') \<longrightarrow>
            take (length (mats s)) (mats s') = mats s \<and> vecs s' = vecs s \<and>
            mats s' ! self_weight l' = mats s ! self_weight l' \<and>
            (\<forall>b. self_bias l' = Some b \<longrightarrow> vecs s' ! b = vecs s ! b) \<and>
            (\<exists>i weight_b weight_norm b sd tv k.
               saved_variables c = Some (i, weight_b, weight_norm, b, sd, tv, k) \<and>
               weight_b \<noteq> self_weight l' \<and> weight_norm \<noteq> self_weight l' \<and>
               output \<noteq> self_weight l'))"
proof (intro conjI allI impI)
  fix out c s'
  assume run: "BinarizedLinear_forward l needs input s = Inr (out, c, s')"
  let ?ctx = "\<lparr>needs_input_grad = needs, saved_variables = None\<rparr> :: sign_saved ctx"
  from run have f: "BinaryLinearFunction_forward ?ctx input (self_weight l) (self_bias l) s
      = Inr (out, c, s')"
    by (simp add: BinarizedLinear_forward_def split: if_splits)
  from sign_forward_result [OF f assms(1,2)] obtain q where
    r: "out = Suc (length (mats s))"
       "c = ?ctx\<lparr>saved_variables := Some (input, length (mats s), length (masks s), self_bias l)\<rparr>"
       "mats s' = mats s @ [torch_sign (mats s ! self_weight l), q]" "vecs s' = vecs s"
    by auto
  show "take (length (mats s)) (mats s') = mats s" by (simp add: r(3))
  show "vecs s' = vecs s" by (rule r(4))
  show "mats s' ! self_weight l = mats s ! self_weight l"
    using assms(2) by (simp add: r(3) nth_append)
  show "\<And>b. vecs s' ! b = vecs s ! b" by (simp add: r(4))
  have "entry (mats s' ! length (mats s)) j k = sgn (entry (mats s ! self_weight l) j k)"
    if "wf_matrix (mats s ! self_weight l)" "j < nrows (mats s ! self_weight l)"
       "k < ncols (mats s ! self_weight l)" for j k
    using that by (simp add: r(3) entry_torch_sign)
  with assms(2) r(1,2)
  show "\<exists>i weight_q m b. saved_variables c = Some (i, weight_q, m, b) \<and>
               weight_q \<noteq> self_weight l \<and> out \<noteq> self_weight l \<and>
               (wf_matrix (mats s ! self_weight l) \<longrightarrow>
                  (\<forall>j<nrows (mats s ! self_weight l). \<forall>k<ncols (mats s ! self_weight l).
                      entry (mats s' ! weight_q) j k = sgn (entry (mats s ! self_weight l) j k)))"
    by (intro exI [of _ input] exI [of _ "length (mats s)"] exI [of _ "length (masks s)"]
          exI [of _ "self_bias l"]) simp
next
  fix out c s'
  assume run: "IRLinear_forward l' needs input s = Inr (out, c, s')"
  let ?ctx = "\<lparr>needs_input_grad = needs, saved_variables = None\<rparr> :: ir_saved ctx"
  from run have f: "IRLinearFunction_forward ?ctx input (self_weight l') (self_bias l') (self_t l') s
      = Inr (out, c, s')"
    by (simp add: IRLinear_forward_def split: if_splits)
  then obtain tv where t: "self_t l' = Some tv"
    by (cases "self_t l'") (simp_all add: ir_forward_None)
  from ir_forward_result [OF f [unfolded t] assms(1,3)] obtain q wn wb where
    r: "out = Suc (Suc (length (mats s)))"
       "c = ?ctx\<lparr>saved_variables := Some (input, Suc (length (mats s)), length (mats s),
             self_bias l', torch_std (mats s ! self_weight l'), tv, max (1 / tv) 1)\<rparr>"
       "mats s' = mats s @ [wn, wb, q]" "vecs s' = vecs s"
    by auto
  show "take (length (mats s)) (mats s') = mats s" by (simp add: r(3))
  show "vecs s' = vecs s" by (rule r(4))
  show "mats s' ! self_weight l' = mats s ! self_weight l'"
    using assms(3) by (simp add: r(3) nth_append)
  show "\<And>b. vecs s' ! b = vecs s ! b" by (simp add: r(4))
  from assms(3) r(1,2)
  show "\<exists>i weight_b weight_norm b sd tv k.
               saved_variables c = Some (i, weight_b, weight_norm, b, sd, tv, k) \<and>
               weight_b \<noteq> self_weight l' \<and> weight_norm \<noteq> self_weight l' \<and>
               out \<noteq> self_weight l'"
    by simp
qed

theorem forward_keeps_parameters_witness:
  "(\<exists>output c s'.
     BinarizedLinear_forward \<lparr>in_features = 2, out_features = 1, self_weight = 1, self_bias = Some 0\<rparr>
       (\<lambda>_. True) 0
       \<lparr>mats = [\<lparr>nrows = 1, ncols = 2, elems = [1, 2]\<rparr>, \<lparr>nrows = 1, ncols = 2, elems = [1, - 1]\<rparr>],
        vecs = [[5]], masks = [], mods = []\<rparr> = Inr (output, c, s') \<and>
     mats s' ! 1 = \<lparr>nrows = 1, ncols = 2, elems = [1, - 1]\<rparr> \<and> vecs s' = [[5]]) \<and>
   (\<exists>output c s'.
     IRLinear_forward \<lparr>in_features = 2, out_features = 1, self_weight = 1, self_bias = Some 0,
                       self_t = Some 1\<rparr> (\<lambda>_. True) 0
       \<lparr>mats = [\<lparr>nrows = 1, ncols = 2, elems = [1, 2]\<rparr>, \<lparr>nrows = 1, ncols = 2, elems = [1, - 1]\<rparr>],
        vecs = [[5]], masks = [], mods = []\<rparr> = Inr (output, c, s') \<and>
     mats s' ! 1 = \<lparr>nrows = 1, ncols = 2, elems = [1, - 1]\<rparr> \<and> vecs s' = [[5]])"
proof -
  define s where "s = \<lparr>mats = [\<lparr>nrows = 1, ncols = 2, elems = [1, 2]\<rparr>,
                               \<lparr>nrows = 1, ncols = 2, elems = [1, - 1]\<rparr>],
        vecs = [[5::real]], masks = [], mods = []\<rparr>"
  define l where "l = \<lparr>in_features = 2, out_features = 1, self_weight = 1, self_bias = Some 0\<rparr>"
  define l' where "l' = \<lparr>in_features = 2, out_features = 1, self_weight = 1, self_bias = Some 0,
                     self_t = Some (1::real)\<rparr>"
  define needs where "needs = (\<lambda>_::nat. True)"
  have h: "0 < length (mats s)" "self_weight l < length (mats s)" "self_weight l' < length (mats s)"
    by (simp_all add: s_def l_def l'_def)
  have v: "self_weight l = 1" "self_weight l' = 1"
    "mats s ! 1 = \<lparr>nrows = 1, ncols = 2, elems = [1, - 1]\<rparr>" "vecs s = [[5]]"
    by (simp_all add: s_def l_def l'_def)
  have "\<exists>r. BinaryLinearFunction_forward \<lparr>needs_input_grad = needs, saved_variables = None\<rparr>
          0 1 (Some 0) s = Inr r"
    by (rule sign_forward_ok) (simp_all add: s_def)
  then obtain out c s' where "BinarizedLinear_forward l needs 0 s = Inr (out, c, s')"
    by (auto simp add: BinarizedLinear_forward_def l_def)
  with forward_keeps_parameters [OF h, of needs]
  have a: "\<exists>out c s'. BinarizedLinear_forward l needs 0 s = Inr (out, c, s') \<and>
     mats s' ! 1 = \<lparr>nrows = 1, ncols = 2, elems = [1, - 1]\<rparr> \<and> vecs s' = [[5]]"
    unfolding v by blast
  have "\<exists>r. IRLinearFunction_forward \<lparr>needs_input_grad = needs, saved_variables = None\<rparr>
          0 1 (Some 0) (Some 1) s = Inr r"
    by (rule ir_forward_ok) (simp_all add: s_def)
  then obtain out c s' where "IRLinear_forward l' needs 0 s = Inr (out, c, s')"
    by (auto simp add: IRLinear_forward_def l'_def)
  with forward_keeps_parameters [OF h, of needs]
  have b: "\<exists>out c s'. IRLinear_forward l' needs 0 s = Inr (out, c, s') \<and>
     mats s' ! 1 = \<lparr>nrows = 1, ncols = 2, elems = [1, - 1]\<rparr> \<and> vecs s' = [[5]]"
    unfolding v by blast
  from a b show ?thesis unfolding s_def l_def l'_def needs_def by blast
qed

subsection \<open>The model surgery\<close>

lemma setitem_at:
  "n \<notin> fst ` set pre \<Longrightarrow> setitem (pre @ (n, m) # rest) n b = pre @ (n, b) # rest"
  by (induction pre) auto

lemma getattr_setattr_item:
  "getattr (setattr_item blk a n b) a = setitem (getattr blk a) n b"
  "a' \<noteq> a \<Longrightarrow> getattr (setattr_item blk a n b) a' = getattr blk a'"
  by (cases a; cases a'; simp add: getattr_def setattr_item_def)+

lemma prefix_length: "take (length xs) ys = xs \<Longrightarrow> length xs \<le> length ys"
  by (metis length_take min.cobounded2 min.commute)

lemma prefix_nth: "take (length xs) ys = xs \<Longrightarrow> i < length xs \<Longrightarrow> ys ! i = xs ! i"
  by (metis nth_take)

lemma prefix_trans:
  "take (length xs) ys = xs \<Longrightarrow> take (length ys) zs = ys \<Longrightarrow> take (length xs) zs = xs"
  by (metis prefix_length min.absorb2 take_take min.commute)

lemma store_extends_refl: "store_extends s s"
  by (simp add: store_extends_def)

lemma store_extends_trans:
  "store_extends s s1 \<Longrightarrow> store_extends s1 s2 \<Longrightarrow> store_extends s s2"
  by (auto simp add: store_extends_def intro: prefix_trans)

lemma store_extends_length:
  assumes "store_extends s s'"
  shows "length (mods s) \<le> length (mods s')" "length (mats s) \<le> length (mats s')"
    "length (vecs s) \<le> length (vecs s')"
  using assms by (auto simp add: store_extends_def intro: prefix_length)

lemma store_extends_nth:
  assumes "store_extends s s'"
  shows "i < length (mods s) \<Longrightarrow> mods s' ! i = mods s ! i"
    "i < length (mats s) \<Longrightarrow> mats s' ! i = mats s ! i"
    "i < length (vecs s) \<Longrightarrow> vecs s' ! i = vecs s ! i"
  using assms by (auto simp add: store_extends_def intro: prefix_nth)

lemma fresh_parameters_start:
  "fresh_parameters s1 s2 noise l l' \<Longrightarrow> store_extends s s1 \<Longrightarrow> fresh_parameters s s2 noise l l'"
  using store_extends_length [of s s1]
  by (auto simp add: fresh_parameters_def split: option.splits)

lemma fresh_parameters_end:
  "fresh_parameters s s1 noise l l' \<Longrightarrow> store_extends s1 s2 \<Longrightarrow> fresh_parameters s s2 noise l l'"
  using store_extends_length [of s1 s2] store_extends_nth [of s1 s2]
  by (auto simp add: fresh_parameters_def split: option.splits)

lemma replacement_of_start:
  "replacement_of s1 s2 noise bl l m \<Longrightarrow> store_extends s s1 \<Longrightarrow> replacement_of s s2 noise bl l m"
  by (auto simp add: replacement_of_def split: module.splits intro: fresh_parameters_start)

lemma replacement_of_end:
  "replacement_of s s1 noise bl l m \<Longrightarrow> store_extends s1 s2 \<Longrightarrow> replacement_of s s2 noise bl l m"
  by (auto simp add: replacement_of_def split: module.splits intro: fresh_parameters_end)

lemma surgery_on_start:
  assumes "surgery_on s1 s2 noise bl qk qv kv first old new"
    and "store_extends s s1" and "snd old < length (mods s)"
  shows "surgery_on s s2 noise bl qk qv kv first old new"
proof -
  have "mods s1 ! snd old = mods s ! snd old"
    using assms(2,3) by (simp add: store_extends_nth)
  moreover have "length (mods s) \<le> length (mods s1)"
    using assms(2) by (rule store_extends_length)
  ultimately show ?thesis using assms(1,2)
    by (auto simp add: surgery_on_def split: module.splits if_splits
        intro: replacement_of_start)
qed

lemma surgery_on_end:
  assumes "surgery_on s s1 noise bl qk qv kv first old new"
    and "store_extends s1 s2"
  shows "surgery_on s s2 noise bl qk qv kv first old new"
proof -
  have "length (mods s1) \<le> length (mods s2)" using assms(2) by (rule store_extends_length)
  moreover have "mods s2 ! i = mods s1 ! i" if "i < length (mods s1)" for i
    using assms(2) that by (simp add: store_extends_nth)
  ultimately show ?thesis using assms
    by (auto simp add: surgery_on_def split: module.splits if_splits
        intro: replacement_of_end)
qed

lemma group_surgery_Nil: "group_surgery s s' noise bl qk qv kv seen [] []"
  by (simp add: group_surgery_def)

lemma ball_upt_Suc:
  "(\<forall>p\<in>set [0..<Suc n]. P p) \<longleftrightarrow> P 0 \<and> (\<forall>p\<in>set [0..<n]. P (Suc p))"
proof -
  have "(\<forall>p\<in>set [0..<Suc n]. P p) \<longleftrightarrow> (\<forall>p<Suc n. P p)"
    by (simp add: Ball_def del: upt_Suc)
  also have "\<dots> \<longleftrightarrow> P 0 \<and> (\<forall>p<n. P (Suc p))" by (rule All_less_Suc2)
  also have "\<dots> \<longleftrightarrow> P 0 \<and> (\<forall>p\<in>set [0..<n]. P (Suc p))" by auto
  finally show ?thesis .
qed

lemma group_surgery_Cons:
  "group_surgery s s' noise bl qk qv kv seen (c # g) (d # g') \<longleftrightarrow>
     surgery_on s s' noise bl qk qv kv (snd c \<notin> set seen) c d \<and>
     group_surgery s s' noise bl qk qv kv (snd c # seen) g g'"
proof -
  have eq: "(snd (g ! p) \<notin> set seen \<union> snd ` set (take (Suc p) (c # g))) =
            (snd (g ! p) \<notin> set (snd c # seen) \<union> snd ` set (take p g))"
    for p by auto
  have "group_surgery s s' noise bl qk qv kv seen (c # g) (d # g') \<longleftrightarrow>
      length g' = length g \<and>
      surgery_on s s' noise bl qk qv kv (snd c \<notin> set seen \<union> snd ` set (take 0 (c # g))) c d \<and>
      (\<forall>p\<in>set [0..<length g]. surgery_on s s' noise bl qk qv kv
          (snd (g ! p) \<notin> set seen \<union> snd ` set (take (Suc p) (c # g))) (g ! p) (g' ! p))"
    unfolding group_surgery_def list_all_iff length_Cons ball_upt_Suc
    by (simp del: take_Suc_Cons)
  then show ?thesis
    unfolding eq by (auto simp add: group_surgery_def list_all_iff)
qed

lemma new_layer_ok:
  assumes "bl = ''basic'' \<or> bl = ''ir''" and "0 < in_features l"
  shows "\<exists>m s'. new_layer bl l (noise (length (mats s))) s = Inr (Some (length (mods s), s')) \<and>
           mods s' = mods s @ [m] \<and> replacement_of s s' noise bl l m \<and> store_extends s s'"
  using assms
  by (auto simp add: new_layer_def BinarizedLinear_init_def IRLinear_init_def new_parameters_def
      alloc_mat_def alloc_vec_def alloc_mod_def replacement_of_def fresh_parameters_def
      store_extends_def Let_def linear_layer.defs ir_layer.defs nth_append)

lemma wf_group_grow: "wf_group s g \<Longrightarrow> store_extends s s1 \<Longrightarrow> wf_group s1 g"
  using store_extends_length(1) [of s s1] store_extends_nth(1) [of s s1]
  by (auto simp add: wf_group_def wf_child_def list_all_iff)

lemma list_all_wf_child_grow:
  "list_all (wf_child s) g \<Longrightarrow> store_extends s s1 \<Longrightarrow> list_all (wf_child s1) g"
  using store_extends_length(1) [of s s1] store_extends_nth(1) [of s s1]
  by (auto simp add: wf_child_def list_all_iff)

lemma group_surgery_length: "group_surgery s s' noise bl qk qv kv seen g g' \<Longrightarrow> length g' = length g"
  by (simp add: group_surgery_def)

lemma group_surgery_start:
  assumes "group_surgery s1 s2 noise bl qk qv kv seen g g'"
    and "store_extends s s1" and "list_all (wf_child s) g"
  shows "group_surgery s s2 noise bl qk qv kv seen g g'"
proof -
  have "surgery_on s s2 noise bl qk qv kv
          (snd (g ! p) \<notin> set seen \<union> snd ` set (take p g)) (g ! p) (g' ! p)"
    if "p < length g" for p
  proof (rule surgery_on_start [OF _ assms(2)])
    show "surgery_on s1 s2 noise bl qk qv kv
          (snd (g ! p) \<notin> set seen \<union> snd ` set (take p g)) (g ! p) (g' ! p)"
      using assms(1) that by (simp add: group_surgery_def list_all_iff)
    show "snd (g ! p) < length (mods s)"
      using assms(3) that by (simp add: list_all_length wf_child_def)
  qed
  with assms(1) show ?thesis by (simp add: group_surgery_def list_all_iff)
qed

lemma group_surgery_end:
  assumes "group_surgery s s1 noise bl qk qv kv seen g g'" and "store_extends s1 s2"
  shows "group_surgery s s2 noise bl qk qv kv seen g g'"
proof -
  have "surgery_on s s2 noise bl qk qv kv
          (snd (g ! p) \<notin> set seen \<union> snd ` set (take p g)) (g ! p) (g' ! p)"
    if "p < length g" for p
  proof (rule surgery_on_end [OF _ assms(2)])
    show "surgery_on s s1 noise bl qk qv kv
          (snd (g ! p) \<notin> set seen \<union> snd ` set (take p g)) (g ! p) (g' ! p)"
      using assms(1) that by (simp add: group_surgery_def list_all_iff)
  qed
  with assms(1) show ?thesis by (simp add: group_surgery_def list_all_iff)
qed

lemma group_surgery_seen:
  "set seen = set seen' \<Longrightarrow>
     group_surgery s s' noise bl qk qv kv seen g g' = group_surgery s s' noise bl qk qv kv seen' g g'"
  by (simp add: group_surgery_def)

text \<open>One iteration of an inner loop, on the child at the head of what is left of the
  group.\<close>

lemma replace_sub_layer_step:
  assumes "bl = ''basic'' \<or> bl = ''ir''"
    and "i < length (transformer_h model)"
    and "getattr (transformer_h model ! i) a = pre @ (n, m) # rest"
    and "n \<notin> fst ` set pre"
    and "wf_child s (n, m)"
  shows "\<exists>model1 s1 b.
           replace_sub_layer bl qk qv kv noise i a (n, m) (model, s) = Inr (model1, s1) \<and>
           length (transformer_h model1) = length (transformer_h model) \<and>
           (\<forall>j. j \<noteq> i \<longrightarrow> transformer_h model1 ! j = transformer_h model ! j) \<and>
           getattr (transformer_h model1 ! i) a = pre @ (n, b) # rest \<and>
           (\<forall>a'. a' \<noteq> a \<longrightarrow> getattr (transformer_h model1 ! i) a' = getattr (transformer_h model ! i) a') \<and>
           surgery_on s s1 noise bl qk qv kv True (n, m) (n, b) \<and>
           store_extends s s1"
proof (cases "\<exists>l. mods s ! m = Linear l \<and> \<not> skipped qk qv kv n")
  case True
  then obtain l where l: "mods s ! m = Linear l" and ns: "\<not> skipped qk qv kv n" by blast
  from assms(5) l have "0 < in_features l" by (simp add: wf_child_def)
  from new_layer_ok [OF assms(1) this, of noise s] obtain mm s1 where
    nl: "new_layer bl l (noise (length (mats s))) s = Inr (Some (length (mods s), s1))"
      "mods s1 = mods s @ [mm]" "replacement_of s s1 noise bl l mm" "store_extends s s1"
    by blast
  let ?b = "length (mods s)"
  let ?model1 = "model\<lparr>transformer_h :=
      (transformer_h model)[i := setattr_item (transformer_h model ! i) a n ?b]\<rparr>"
  have run: "replace_sub_layer bl qk qv kv noise i a (n, m) (model, s) = Inr (?model1, s1)"
    using l ns nl(1) by (auto simp add: replace_sub_layer_def skipped_def)
  have g: "getattr (transformer_h ?model1 ! i) a = pre @ (n, ?b) # rest"
    using assms(2,3,4) by (simp add: getattr_setattr_item setitem_at)
  have o: "\<forall>a'. a' \<noteq> a \<longrightarrow>
      getattr (transformer_h ?model1 ! i) a' = getattr (transformer_h model ! i) a'"
    using assms(2) by (simp add: getattr_setattr_item)
  have su: "surgery_on s s1 noise bl qk qv kv True (n, m) (n, ?b)"
    using l ns nl(2,3) by (simp add: surgery_on_def)
  from run g o su nl(4) show ?thesis
    by (intro exI [of _ ?model1] exI [of _ s1] exI [of _ ?b]) simp
next
  case False
  then have run: "replace_sub_layer bl qk qv kv noise i a (n, m) (model, s) = Inr (model, s)"
    by (auto simp add: replace_sub_layer_def skipped_def split: module.splits)
  have su: "surgery_on s s noise bl qk qv kv True (n, m) (n, m)"
    using False by (auto simp add: surgery_on_def split: module.splits)
  from run su assms(3) show ?thesis
    by (intro exI [of _ model] exI [of _ s] exI [of _ m]) (simp add: store_extends_refl)
qed

lemma surgery_on_not_first: "surgery_on s s' noise bl qk qv kv False c c"
  by (simp add: surgery_on_def split: module.splits)

text \<open>An inner loop, from any point of the group on: \<open>pre\<close> is the part of the group
  already passed, \<open>xs\<close> what is left, \<open>memo\<close> the objects already yielded.\<close>

lemma group_loop:
  assumes "bl = ''basic'' \<or> bl = ''ir''"
  shows "i < length (transformer_h model) \<Longrightarrow>
         getattr (transformer_h model ! i) a = pre @ xs \<Longrightarrow>
         distinct (map fst (pre @ xs)) \<Longrightarrow>
         list_all (wf_child s) xs \<Longrightarrow>
         \<exists>model' s' xs'.
           for_each (replace_sub_layer bl qk qv kv noise i a) (named_children_from memo xs)
             (model, s) = Inr (model', s') \<and>
           length (transformer_h model') = length (transformer_h model) \<and>
           (\<forall>j. j \<noteq> i \<longrightarrow> transformer_h model' ! j = transformer_h model ! j) \<and>
           getattr (transformer_h model' ! i) a = pre @ xs' \<and>
           (\<forall>a'. a' \<noteq> a \<longrightarrow> getattr (transformer_h model' ! i) a' = getattr (transformer_h model ! i) a') \<and>
           group_surgery s s' noise bl qk qv kv memo xs xs' \<and>
           store_extends s s'"
proof (induction xs arbitrary: model s pre memo)
  case Nil
  then show ?case by (simp add: group_surgery_Nil store_extends_refl)
next
  case (Cons c xs)
  obtain n m where c: "c = (n, m)" by (cases c)
  from Cons.prems(3) have n: "n \<notin> fst ` set pre" by (auto simp add: c)
  from Cons.prems(4) have wc: "wf_child s (n, m)" and wx: "list_all (wf_child s) xs"
    by (simp_all add: c)
  show ?case
  proof (cases "m \<in> set memo")
    case True
    have p2: "getattr (transformer_h model ! i) a = (pre @ [c]) @ xs" using Cons.prems(2) by simp
    have p3: "distinct (map fst ((pre @ [c]) @ xs))" using Cons.prems(3) by simp
    from Cons.IH [OF Cons.prems(1) p2 p3 wx, of memo] obtain model' s' xs' where
      r: "for_each (replace_sub_layer bl qk qv kv noise i a) (named_children_from memo xs)
            (model, s) = Inr (model', s')"
        "length (transformer_h model') = length (transformer_h model)"
        "\<forall>j. j \<noteq> i \<longrightarrow> transformer_h model' ! j = transformer_h model ! j"
        "getattr (transformer_h model' ! i) a = (pre @ [c]) @ xs'"
        "\<forall>a'. a' \<noteq> a \<longrightarrow> getattr (transformer_h model' ! i) a' = getattr (transformer_h model ! i) a'"
        "group_surgery s s' noise bl qk qv kv memo xs xs'"
        "store_extends s s'"
      by blast
    have seen: "set (m # memo) = set memo" using True by auto
    have gs: "group_surgery s s' noise bl qk qv kv memo (c # xs) (c # xs')"
      using r(6) True
      by (simp add: group_surgery_Cons group_surgery_seen [OF seen] c surgery_on_not_first)
    from r(1,2,3,4,5,7) gs True show ?thesis
      by (intro exI [of _ model'] exI [of _ s'] exI [of _ "c # xs'"]) (simp add: c)
  next
    case False
    from replace_sub_layer_step [OF assms Cons.prems(1) Cons.prems(2) [unfolded c] n wc,
        of qk qv kv noise]
    obtain model1 s1 b where
      st: "replace_sub_layer bl qk qv kv noise i a (n, m) (model, s) = Inr (model1, s1)"
        "length (transformer_h model1) = length (transformer_h model)"
        "\<forall>j. j \<noteq> i \<longrightarrow> transformer_h model1 ! j = transformer_h model ! j"
        "getattr (transformer_h model1 ! i) a = pre @ (n, b) # xs"
        "\<forall>a'. a' \<noteq> a \<longrightarrow> getattr (transformer_h model1 ! i) a' = getattr (transformer_h model ! i) a'"
        "surgery_on s s1 noise bl qk qv kv True (n, m) (n, b)"
        "store_extends s s1"
      by blast
    have p1: "i < length (transformer_h model1)" using Cons.prems(1) st(2) by simp
    have p2: "getattr (transformer_h model1 ! i) a = (pre @ [(n, b)]) @ xs" using st(4) by simp
    have p3: "distinct (map fst ((pre @ [(n, b)]) @ xs))" using Cons.prems(3) by (simp add: c)
    have p4: "list_all (wf_child s1) xs" using wx st(7) by (rule list_all_wf_child_grow)
    from Cons.IH [OF p1 p2 p3 p4, of "m # memo"] obtain model' s' xs' where
      r: "for_each (replace_sub_layer bl qk qv kv noise i a) (named_children_from (m # memo) xs)
            (model1, s1) = Inr (model', s')"
        "length (transformer_h model') = length (transformer_h model1)"
        "\<forall>j. j \<noteq> i \<longrightarrow> transformer_h model' ! j = transformer_h model1 ! j"
        "getattr (transformer_h model' ! i) a = (pre @ [(n, b)]) @ xs'"
        "\<forall>a'. a' \<noteq> a \<longrightarrow> getattr (transformer_h model' ! i) a' = getattr (transformer_h model1 ! i) a'"
        "group_surgery s1 s' noise bl qk qv kv (m # memo) xs xs'"
        "store_extends s1 s'"
      by blast
    have run: "for_each (replace_sub_layer bl qk qv kv noise i a)
        (named_children_from memo (c # xs)) (model, s) = Inr (model', s')"
      using st(1) r(1) False by (simp add: c)
    have hd: "surgery_on s s' noise bl qk qv kv True c (n, b)"
      using surgery_on_end [OF st(6) r(7)] by (simp add: c)
    have tl: "group_surgery s s' noise bl qk qv kv (m # memo) xs xs'"
      using r(6) st(7) wx by (rule group_surgery_start)
    have gs: "group_surgery s s' noise bl qk qv kv memo (c # xs) ((n, b) # xs')"
      using hd tl False by (simp add: group_surgery_Cons c)
    have ext: "store_extends s s'" using st(7) r(7) by (rule store_extends_trans)
    from run r(2,3,4,5) st(2,3,5) gs ext show ?thesis
      by (intro exI [of _ model'] exI [of _ s'] exI [of _ "(n, b) # xs'"]) simp
  qed
qed

text \<open>One iteration of the outer loop.\<close>

lemma binarizer_block_ok:
  assumes "bl = ''basic'' \<or> bl = ''ir''"
    and "i < length (transformer_h model)"
    and "wf_group s (mlp (transformer_h model ! i))"
    and "wf_group s (attn (transformer_h model ! i))"
  shows "\<exists>model' s'.
           binarizer_block bl qk qv kv noise i (model, s) = Inr (model', s') \<and>
           length (transformer_h model') = length (transformer_h model) \<and>
           (\<forall>j. j \<noteq> i \<longrightarrow> transformer_h model' ! j = transformer_h model ! j) \<and>
           group_surgery s s' noise bl qk qv kv []
             (mlp (transformer_h model ! i)) (mlp (transformer_h model' ! i)) \<and>
           group_surgery s s' noise bl qk qv kv []
             (attn (transformer_h model ! i)) (attn (transformer_h model' ! i)) \<and>
           store_extends s s'"
proof -
  let ?blk = "transformer_h model ! i"
  have m0: "getattr ?blk MLP = [] @ mlp ?blk" by (simp add: getattr_def)
  have m1: "distinct (map fst ([] @ mlp ?blk))" "list_all (wf_child s) (mlp ?blk)"
    using assms(3) by (simp_all add: wf_group_def)
  from group_loop [OF assms(1,2) m0 m1, of qk qv kv noise "[]"] obtain model1 s1 xs1 where
    r1: "for_each (replace_sub_layer bl qk qv kv noise i MLP) (named_children_from [] (mlp ?blk))
           (model, s) = Inr (model1, s1)"
      "length (transformer_h model1) = length (transformer_h model)"
      "\<forall>j. j \<noteq> i \<longrightarrow> transformer_h model1 ! j = transformer_h model ! j"
      "getattr (transformer_h model1 ! i) MLP = [] @ xs1"
      "\<forall>a'. a' \<noteq> MLP \<longrightarrow> getattr (transformer_h model1 ! i) a' = getattr ?blk a'"
      "group_surgery s s1 noise bl qk qv kv [] (mlp ?blk) xs1"
      "store_extends s s1"
    by blast
  let ?blk1 = "transformer_h model1 ! i"
  have at: "attn ?blk1 = attn ?blk" using r1(5) by (auto simp add: getattr_def)
  have i1: "i < length (transformer_h model1)" using assms(2) r1(2) by simp
  have w1: "wf_group s1 (attn ?blk)" using assms(4) r1(7) by (rule wf_group_grow)
  have a0: "getattr ?blk1 ATTN = [] @ attn ?blk" by (simp add: getattr_def at)
  have a1: "distinct (map fst ([] @ attn ?blk))" "list_all (wf_child s1) (attn ?blk)"
    using w1 by (simp_all add: wf_group_def)
  from group_loop [OF assms(1) i1 a0 a1, of qk qv kv noise "[]"] obtain model2 s2 xs2 where
    r2: "for_each (replace_sub_layer bl qk qv kv noise i ATTN) (named_children_from [] (attn ?blk))
           (model1, s1) = Inr (model2, s2)"
      "length (transformer_h model2) = length (transformer_h model1)"
      "\<forall>j. j \<noteq> i \<longrightarrow> transformer_h model2 ! j = transformer_h model1 ! j"
      "getattr (transformer_h model2 ! i) ATTN = [] @ xs2"
      "\<forall>a'. a' \<noteq> ATTN \<longrightarrow> getattr (transformer_h model2 ! i) a' = getattr ?blk1 a'"
      "group_surgery s1 s2 noise bl qk qv kv [] (attn ?blk) xs2"
      "store_extends s1 s2"
    by blast
  have run: "binarizer_block bl qk qv kv noise i (model, s) = Inr (model2, s2)"
    using r1(1) r2(1) by (simp add: binarizer_block_def named_children_def getattr_def at)
  have g1: "mlp (transformer_h model2 ! i) = xs1"
    using r2(5) r1(4) by (auto simp add: getattr_def)
  have g2: "attn (transformer_h model2 ! i) = xs2"
    using r2(4) by (simp add: getattr_def)
  have l1: "group_surgery s s2 noise bl qk qv kv [] (mlp ?blk) xs1"
    using r1(6) r2(7) by (rule group_surgery_end)
  have l2: "group_surgery s s2 noise bl qk qv kv [] (attn ?blk) xs2"
  proof (rule group_surgery_start [OF r2(6) r1(7)])
    show "list_all (wf_child s) (attn ?blk)" using assms(4) by (simp add: wf_group_def)
  qed
  have ext: "store_extends s s2" using r1(7) r2(7) by (rule store_extends_trans)
  from run r1(2,3) r2(2,3) g1 g2 l1 l2 ext show ?thesis
    by (intro exI [of _ model2] exI [of _ s2]) simp
qed

text \<open>The outer loop over any list of distinct block indices.\<close>

lemma binarizer_loop:
  assumes "bl = ''basic'' \<or> bl = ''ir''"
  shows "distinct ks \<Longrightarrow>
         \<forall>i\<in>set ks. i < length (transformer_h model) \<and>
            wf_group s (mlp (transformer_h model ! i)) \<and>
            wf_group s (attn (transformer_h model ! i)) \<Longrightarrow>
         \<exists>model' s'.
           for_each (binarizer_block bl qk qv kv noise) ks (model, s) = Inr (model', s') \<and>
           length (transformer_h model') = length (transformer_h model) \<and>
           (\<forall>j. j \<notin> set ks \<longrightarrow> transformer_h model' ! j = transformer_h model ! j) \<and>
           (\<forall>i\<in>set ks.
              group_surgery s s' noise bl qk qv kv []
                (mlp (transformer_h model ! i)) (mlp (transformer_h model' ! i)) \<and>
              group_surgery s s' noise bl qk qv kv []
                (attn (transformer_h model ! i)) (attn (transformer_h model' ! i))) \<and>
           store_extends s s'"
proof (induction ks arbitrary: model s)
  case Nil
  then show ?case by (simp add: store_extends_refl)
next
  case (Cons i ks)
  from Cons.prems have i: "i < length (transformer_h model)"
    "wf_group s (mlp (transformer_h model ! i))" "wf_group s (attn (transformer_h model ! i))"
    "i \<notin> set ks" "distinct ks"
    by simp_all
  from binarizer_block_ok [OF assms i(1,2,3), of qk qv kv noise] obtain model1 s1 where
    b: "binarizer_block bl qk qv kv noise i (model, s) = Inr (model1, s1)"
      "length (transformer_h model1) = length (transformer_h model)"
      "\<forall>j. j \<noteq> i \<longrightarrow> transformer_h model1 ! j = transformer_h model ! j"
      "group_surgery s s1 noise bl qk qv kv []
             (mlp (transformer_h model ! i)) (mlp (transformer_h model1 ! i))"
      "group_surgery s s1 noise bl qk qv kv []
             (attn (transformer_h model ! i)) (attn (transformer_h model1 ! i))"
      "store_extends s s1"
    by blast
  have same: "transformer_h model1 ! j = transformer_h model ! j" if "j \<in> set ks" for j
    using that i(4) b(3) by auto
  have wf1: "\<forall>j\<in>set ks. j < length (transformer_h model1) \<and>
            wf_group s1 (mlp (transformer_h model1 ! j)) \<and>
            wf_group s1 (attn (transformer_h model1 ! j))"
    using Cons.prems(2) b(2,6) same by (auto intro: wf_group_grow)
  from Cons.IH [OF i(5) wf1] obtain model' s' where
    r: "for_each (binarizer_block bl qk qv kv noise) ks (model1, s1) = Inr (model', s')"
      "length (transformer_h model') = length (transformer_h model1)"
      "\<forall>j. j \<notin> set ks \<longrightarrow> transformer_h model' ! j = transformer_h model1 ! j"
      "\<forall>j\<in>set ks.
              group_surgery s1 s' noise bl qk qv kv []
                (mlp (transformer_h model1 ! j)) (mlp (transformer_h model' ! j)) \<and>
              group_surgery s1 s' noise bl qk qv kv []
                (attn (transformer_h model1 ! j)) (attn (transformer_h model' ! j))"
      "store_extends s1 s'"
    by blast
  have run: "for_each (binarizer_block bl qk qv kv noise) (i # ks) (model, s) = Inr (model', s')"
    using b(1) r(1) by simp
  have keep: "\<forall>j. j \<notin> set (i # ks) \<longrightarrow> transformer_h model' ! j = transformer_h model ! j"
    using r(3) b(3) by simp
  have hd: "transformer_h model' ! i = transformer_h model1 ! i" using r(3) i(4) by simp
  have ext: "store_extends s s'" using b(6) r(5) by (rule store_extends_trans)
  have rel: "group_surgery s s' noise bl qk qv kv []
                (mlp (transformer_h model ! j)) (mlp (transformer_h model' ! j)) \<and>
              group_surgery s s' noise bl qk qv kv []
                (attn (transformer_h model ! j)) (attn (transformer_h model' ! j))"
    if "j \<in> set (i # ks)" for j
  proof (cases "j = i")
    case True
    with b(4,5) r(5) hd show ?thesis by (simp add: group_surgery_end)
  next
    case False
    with that have j: "j \<in> set ks" by simp
    with Cons.prems(2) have w: "list_all (wf_child s) (mlp (transformer_h model ! j))"
      "list_all (wf_child s) (attn (transformer_h model ! j))"
      by (simp_all add: wf_group_def)
    from r(4) j same [OF j]
    have "group_surgery s1 s' noise bl qk qv kv []
                (mlp (transformer_h model ! j)) (mlp (transformer_h model' ! j))"
      "group_surgery s1 s' noise bl qk qv kv []
                (attn (transformer_h model ! j)) (attn (transformer_h model' ! j))"
      by auto
    with b(6) w show ?thesis by (simp add: group_surgery_start)
  qed
  from run r(2) b(2) keep rel ext show ?case
    by (intro exI [of _ model'] exI [of _ s']) simp
qed


lemma group_surgery_nth:
  "group_surgery s s' noise bl qk qv kv seen g g' \<Longrightarrow> p < length g \<Longrightarrow>
     surgery_on s s' noise bl qk qv kv (snd (g ! p) \<notin> set seen \<union> snd ` set (take p g))
       (g ! p) (g' ! p)"
  by (simp add: group_surgery_def list_all_iff)

text \<open>
  C8, as stated, fails. A linear layer registered under two names of one group is visited
  once, since \<open>named_children\<close> yields an object once: its first name gets the new layer, the
  second name keeps the old \<open>nn.Linear\<close>. And a linear layer with \<open>in_features = 0\<close> is not
  replaced: the constructor of the new layer raises a ZeroDivisionError.
\<close>

theorem binarizer_keeps_aliased_linear:
  "binarizer \<lparr>transformer_h = [\<lparr>mlp = [(''c_fc'', 0), (''c_proj'', 0)], attn = []\<rparr>]\<rparr>
       ''basic'' False False False (\<lambda>_ _. 0)
       \<lparr>mats = [\<lparr>nrows = 1, ncols = 1, elems = [1]\<rparr>], vecs = [], masks = [],
        mods = [Linear \<lparr>in_features = 1, out_features = 1, self_weight = 0, self_bias = None\<rparr>]\<rparr>
     = Inr (\<lparr>transformer_h = [\<lparr>mlp = [(''c_fc'', 1), (''c_proj'', 0)], attn = []\<rparr>]\<rparr>,
            \<lparr>mats = [\<lparr>nrows = 1, ncols = 1, elems = [1]\<rparr>, \<lparr>nrows = 1, ncols = 1, elems = [0]\<rparr>],
             vecs = [[0]], masks = [],
             mods = [Linear \<lparr>in_features = 1, out_features = 1, self_weight = 0, self_bias = None\<rparr>,
                     BinarizedLinear \<lparr>in_features = 1, out_features = 1, self_weight = 1,
                                      self_bias = Some 0\<rparr>]\<rparr>) \<and>
   binarizer \<lparr>transformer_h = [\<lparr>mlp = [(''c_fc'', 0)], attn = []\<rparr>]\<rparr>
       ''basic'' False False False (\<lambda>_ _. 0)
       \<lparr>mats = [\<lparr>nrows = 2, ncols = 0, elems = []\<rparr>], vecs = [], masks = [],
        mods = [Linear \<lparr>in_features = 0, out_features = 2, self_weight = 0, self_bias = None\<rparr>]\<rparr>
     = Inl ZeroDivisionError"
  by (simp add: binarizer_def binarizer_block_def named_children_def getattr_def
      replace_sub_layer_def new_layer_def BinarizedLinear_init_def new_parameters_def
      alloc_mat_def alloc_vec_def alloc_mod_def setattr_item_def Let_def)

text \<open>
  C8, amended. For \<open>binarize_layer\<close> one of "basic" and "ir", on a model whose groups are
  dictionaries of objects of the store and whose \<open>nn.Linear\<close> children have \<open>in_features\<close> at
  least 1, \<open>binarizer\<close> returns, the model has the same blocks, and in every block the \<open>mlp\<close>
  group and the \<open>attn\<close> group each keep their names at their positions, where: a child whose
  exact type is \<open>nn.Linear\<close>, at the first position of its group that holds this object, is
  replaced at its position by a module object that did not exist before, a layer of the
  requested kind with the same \<open>in_features\<close> and \<open>out_features\<close>, a new weight of these sizes
  and a new zero bias, unless its name is "c_attn_q" and \<open>kv_only\<close> is true, or "c_attn_k" and
  \<open>qv_only\<close>, or "c_attn_v" and \<open>qk_only\<close>; a skipped child, a child of any other type (a
  module that wraps a linear layer, a subclass) and a child whose object stands at an
  earlier position of the group is the same object as before. Every object that existed
  before is unchanged.
\<close>

theorem binarizer_replaces_linear:
  assumes "binarize_layer = ''basic'' \<or> binarize_layer = ''ir''"
    and "wf_model s model"
  shows "\<exists>model' s'.
           binarizer model binarize_layer qk_only qv_only kv_only noise s = Inr (model', s') \<and>
           length (transformer_h model') = length (transformer_h model) \<and>
           (\<forall>i<length (transformer_h model).
              group_surgery s s' noise binarize_layer qk_only qv_only kv_only []
                (mlp (transformer_h model ! i)) (mlp (transformer_h model' ! i)) \<and>
              group_surgery s s' noise binarize_layer qk_only qv_only kv_only []
                (attn (transformer_h model ! i)) (attn (transformer_h model' ! i))) \<and>
           store_extends s s'"
proof -
  have wf: "\<forall>i\<in>set [0..<length (transformer_h model)]. i < length (transformer_h model) \<and>
            wf_group s (mlp (transformer_h model ! i)) \<and>
            wf_group s (attn (transformer_h model ! i))"
    using assms(2) by (simp add: wf_model_def list_all_length)
  have "distinct [0..<length (transformer_h model)]" by simp
  from binarizer_loop [OF assms(1) this wf, of qk_only qv_only kv_only noise]
  obtain model' s' where
    r: "for_each (binarizer_block binarize_layer qk_only qv_only kv_only noise)
          [0..<length (transformer_h model)] (model, s) = Inr (model', s')"
      "length (transformer_h model') = length (transformer_h model)"
      "\<forall>i\<in>set [0..<length (transformer_h model)].
              group_surgery s s' noise binarize_layer qk_only qv_only kv_only []
                (mlp (transformer_h model ! i)) (mlp (transformer_h model' ! i)) \<and>
              group_surgery s s' noise binarize_layer qk_only qv_only kv_only []
                (attn (transformer_h model ! i)) (attn (transformer_h model' ! i))"
      "store_extends s s'"
    by blast
  then show ?thesis
    by (intro exI [of _ model'] exI [of _ s']) (simp add: binarizer_def)
qed

theorem binarizer_replaces_linear_witness:
  "\<exists>model' s'.
     binarizer \<lparr>transformer_h = [\<lparr>mlp = [(''c_attn_q'', 0), (''act'', 1)],
                                 attn = [(''c_proj'', 2), (''c_tied'', 2)]\<rparr>]\<rparr>
       ''basic'' False False True (\<lambda>_ _. 0)
       \<lparr>mats = [\<lparr>nrows = 1, ncols = 1, elems = [1]\<rparr>, \<lparr>nrows = 1, ncols = 1, elems = [2]\<rparr>],
        vecs = [], masks = [],
        mods = [Linear \<lparr>in_features = 1, out_features = 1, self_weight = 0, self_bias = None\<rparr>,
                Other ''GELU'' [],
                Linear \<lparr>in_features = 1, out_features = 1, self_weight = 1, self_bias = None\<rparr>]\<rparr>
       = Inr (model', s') \<and>
     length (transformer_h model') = 1 \<and>
     mlp (transformer_h model' ! 0) ! 0 = (''c_attn_q'', 0) \<and>
     mlp (transformer_h model' ! 0) ! 1 = (''act'', 1) \<and>
     fst (attn (transformer_h model' ! 0) ! 0) = ''c_proj'' \<and>
     3 \<le> snd (attn (transformer_h model' ! 0) ! 0) \<and>
     attn (transformer_h model' ! 0) ! 1 = (''c_tied'', 2)"
proof -
  define s where "s = \<lparr>mats = [\<lparr>nrows = 1, ncols = 1, elems = [1::real]\<rparr>,
                               \<lparr>nrows = 1, ncols = 1, elems = [2]\<rparr>],
        vecs = [], masks = [],
        mods = [Linear \<lparr>in_features = 1, out_features = 1, self_weight = 0, self_bias = None\<rparr>,
                Other ''GELU'' [],
                Linear \<lparr>in_features = 1, out_features = 1, self_weight = 1, self_bias = None\<rparr>]\<rparr>"
  define model where
    "model = \<lparr>transformer_h = [\<lparr>mlp = [(''c_attn_q'', 0), (''act'', 1)],
                                 attn = [(''c_proj'', 2), (''c_tied'', 2)]\<rparr>]\<rparr>"
  define noise where "noise = (\<lambda>(_::nat) (_::nat). 0::real)"
  have h: "''basic'' = ''basic'' \<or> ''basic'' = ''ir''" "wf_model s model"
    by (simp_all add: wf_model_def wf_group_def wf_child_def s_def model_def)
  from binarizer_replaces_linear [OF h, of False False True noise] obtain model' s' where
    r: "binarizer model ''basic'' False False True noise s = Inr (model', s')"
      "length (transformer_h model') = length (transformer_h model)"
      "\<forall>i<length (transformer_h model).
              group_surgery s s' noise ''basic'' False False True []
                (mlp (transformer_h model ! i)) (mlp (transformer_h model' ! i)) \<and>
              group_surgery s s' noise ''basic'' False False True []
                (attn (transformer_h model ! i)) (attn (transformer_h model' ! i))"
    by blast
  have "0 < length (transformer_h model)" by (simp add: model_def)
  with r(3) have l: "group_surgery s s' noise ''basic'' False False True []
                (mlp (transformer_h model ! 0)) (mlp (transformer_h model' ! 0))"
     "group_surgery s s' noise ''basic'' False False True []
                (attn (transformer_h model ! 0)) (attn (transformer_h model' ! 0))"
    by blast+
  have m: "mlp (transformer_h model ! 0) = [(''c_attn_q'', 0), (''act'', 1)]"
    "attn (transformer_h model ! 0) = [(''c_proj'', 2), (''c_tied'', 2)]"
    by (simp_all add: model_def)
  from group_surgery_nth [OF l(1), of 0] group_surgery_nth [OF l(1), of 1]
  have e1: "mlp (transformer_h model' ! 0) ! 0 = (''c_attn_q'', 0)"
    "mlp (transformer_h model' ! 0) ! 1 = (''act'', 1)"
    by (simp_all add: m surgery_on_def skipped_def s_def prod_eq_iff)
  from group_surgery_nth [OF l(2), of 0] group_surgery_nth [OF l(2), of 1]
  have e2: "fst (attn (transformer_h model' ! 0) ! 0) = ''c_proj''"
    "3 \<le> snd (attn (transformer_h model' ! 0) ! 0)"
    "attn (transformer_h model' ! 0) ! 1 = (''c_tied'', 2)"
    by (simp_all add: m surgery_on_def skipped_def s_def prod_eq_iff)
  have "length (transformer_h model') = 1" using r(2) by (simp add: model_def)
  with r(1) e1 e2 have "binarizer model ''basic'' False False True noise s = Inr (model', s') \<and>
     length (transformer_h model') = 1 \<and>
     mlp (transformer_h model' ! 0) ! 0 = (''c_attn_q'', 0) \<and>
     mlp (transformer_h model' ! 0) ! 1 = (''act'', 1) \<and>
     fst (attn (transformer_h model' ! 0) ! 0) = ''c_proj'' \<and>
     3 \<le> snd (attn (transformer_h model' ! 0) ! 0) \<and>
     attn (transformer_h model' ! 0) ! 1 = (''c_tied'', 2)"
    by simp
  then show ?thesis unfolding s_def model_def noise_def by (intro exI)
qed

text \<open>
  C9. With a \<open>binarize_layer\<close> that is neither "basic" nor "ir", \<open>binarizer\<close> raises nothing
  on a model with no linear layer to replace: it returns, and model and store are as
  before. On a model with one it stops at the assignment of the unbound \<open>b\<close>, with an
  UnboundLocalError.
\<close>

theorem binarizer_unknown_kind:
  "binarizer \<lparr>transformer_h = [\<lparr>mlp = [(''act'', 0)], attn = []\<rparr>]\<rparr>
       ''ternary'' False False False (\<lambda>_ _. 0)
       \<lparr>mats = [], vecs = [], masks = [], mods = [Other ''GELU'' []]\<rparr>
     = Inr (\<lparr>transformer_h = [\<lparr>mlp = [(''act'', 0)], attn = []\<rparr>]\<rparr>,
            \<lparr>mats = [], vecs = [], masks = [], mods = [Other ''GELU'' []]\<rparr>) \<and>
   binarizer \<lparr>transformer_h = [\<lparr>mlp = [(''c_fc'', 0)], attn = []\<rparr>]\<rparr>
       ''ternary'' False False False (\<lambda>_ _. 0)
       \<lparr>mats = [\<lparr>nrows = 1, ncols = 1, elems = [1]\<rparr>], vecs = [], masks = [],
        mods = [Linear \<lparr>in_features = 1, out_features = 1, self_weight = 0, self_bias = None\<rparr>]\<rparr>
     = Inl UnboundLocalError"
  by (simp add: binarizer_def binarizer_block_def named_children_def getattr_def
      replace_sub_layer_def new_layer_def)

end
